theory Spec2Isabelle
  imports Main
begin

section \<open>The schema of the migration\<close>

text \<open>
  The stock ledger of the pharmacy dashboard lives in the PostgreSQL migration: the tables
  \<open>produtos\<close>, \<open>compras\<close> and \<open>vendas\<close>, their constraints, the two stock triggers and the
  alert view. The pages \<open>Vendas\<close>, \<open>Compras\<close> and \<open>Produtos\<close> call it through inserts,
  updates and deletes.

  Conventions of the model:
  \<^item> a \<open>UUID\<close> is an opaque identifier that is only compared for equality: a natural number;
  \<^item> a \<open>DECIMAL(10,2)\<close> amount is its value in hundredths (\<open>12.00\<close> is \<open>1200\<close>), so products
    of an amount and an integer are exact; the column holds it when its absolute value is
    below \<open>10^8\<close>, that is below \<open>10^10\<close> hundredths;
  \<^item> an \<open>INTEGER\<close> is a 32-bit value; PostgreSQL raises an error on overflow instead of
    wrapping, so quantities are integers with the range check written out;
  \<^item> a \<open>DATE\<close> is a day number (days since the epoch);
  \<^item> a nullable column is an \<open>option\<close>;
  \<^item> the columns of a table carry a prefix (\<open>p_\<close>, \<open>c_\<close>, \<open>v_\<close>), since several tables
    have columns of the same name;
  \<^item> timestamps (\<open>created_at\<close>, \<open>updated_at\<close>, \<open>data_compra\<close>, \<open>data_venda\<close>) and the
    generated row identifiers of \<open>compras\<close> and \<open>vendas\<close> are left out: no statement of the
    ledger reads them.
\<close>

type_synonym uuid = nat
type_synonym money = int
type_synonym date = int

datatype role = admin | vendedor

record profile =
  pr_id :: uuid
  pr_role :: role

record produto =
  p_id :: uuid
  p_nome :: string
  p_codigo :: string
  p_categoria_id :: "uuid option"
  p_preco_compra :: money
  p_preco_venda :: money
  p_quantidade :: int
  p_quantidade_minima :: "int option"
  p_validade :: date
  p_descricao :: "string option"

record compra =
  c_fornecedor_id :: "uuid option"
  c_produto_id :: "uuid option"
  c_quantidade :: int
  c_preco_unitario :: money
  c_total :: money
  c_user_id :: uuid
  c_observacoes :: "string option"

record venda =
  v_produto_id :: "uuid option"
  v_quantidade :: int
  v_preco_unitario :: money
  v_total :: money
  v_lucro :: "money option"
  v_user_id :: uuid
  v_observacoes :: "string option"

record database =
  profiles :: "profile list"
  categorias :: "uuid list"
  fornecedores :: "uuid list"
  produtos :: "produto list"
  compras :: "compra list"
  vendas :: "venda list"

text \<open>The rows sent by the pages: the columns an insert or update supplies.\<close>

record compra_insert =
  ci_produto_id :: "uuid option"
  ci_fornecedor_id :: "uuid option"
  ci_quantidade :: int
  ci_preco_unitario :: money
  ci_user_id :: uuid
  ci_observacoes :: "string option"

record venda_insert =
  vi_produto_id :: "uuid option"
  vi_quantidade :: int
  vi_preco_unitario :: money
  vi_user_id :: uuid
  vi_observacoes :: "string option"

record produto_data =
  pd_nome :: string
  pd_codigo :: string
  pd_categoria_id :: uuid
  pd_preco_compra :: money
  pd_preco_venda :: money
  pd_quantidade :: int
  pd_quantidade_minima :: int
  pd_validade :: "date option"
  pd_descricao :: string

text \<open>
  The errors PostgreSQL raises, by condition name; a violated constraint carries the name
  PostgreSQL gives it (\<open>table_column_check\<close>, \<open>table_column_fkey\<close>, \<open>table_column_key\<close>).
  \<open>insufficient_privilege\<close> is the error of a row that fails a row-level security policy.
\<close>

datatype pg_error =
    numeric_value_out_of_range
  | invalid_datetime_format
  | check_violation string
  | foreign_key_violation string
  | unique_violation string
  | insufficient_privilege

definition int4 :: "int \<Rightarrow> bool" where
  "int4 n \<longleftrightarrow> - 2147483648 \<le> n \<and> n \<le> 2147483647"

definition decimal_10_2 :: "money \<Rightarrow> bool" where
  "decimal_10_2 c \<longleftrightarrow> - 10000000000 < c \<and> c < 10000000000"

section \<open>The stock triggers\<close>

text \<open>
  \<^verbatim>\<open>UPDATE public.produtos SET quantidade = f(quantidade) WHERE id = pid\<close>.
  A \<open>NULL\<close> \<open>pid\<close> matches no row. Each matching row gets its new quantity, which must fit
  an \<open>INTEGER\<close> and satisfy \<^verbatim>\<open>CHECK (quantidade >= 0)\<close>; the first row that fails aborts
  the statement.
\<close>

fun update_produtos_quantidade ::
  "(int \<Rightarrow> int) \<Rightarrow> uuid option \<Rightarrow> produto list \<Rightarrow> pg_error + produto list" where
  "update_produtos_quantidade f pid [] = Inr []"
| "update_produtos_quantidade f pid (p # ps) =
     (if Some (p_id p) = pid then
        (if \<not> int4 (f (p_quantidade p)) then Inl numeric_value_out_of_range
         else if \<not> 0 \<le> f (p_quantidade p) then Inl (check_violation ''produtos_quantidade_check'')
         else (case update_produtos_quantidade f pid ps of
                 Inl e \<Rightarrow> Inl e
               | Inr ps' \<Rightarrow> Inr (p\<lparr>p_quantidade := f (p_quantidade p)\<rparr> # ps')))
      else (case update_produtos_quantidade f pid ps of
              Inl e \<Rightarrow> Inl e
            | Inr ps' \<Rightarrow> Inr (p # ps')))"

text \<open>
  \<open>atualizar_estoque_compra\<close>, fired \<open>AFTER INSERT ON compras\<close>: adds the bought quantity to
  the stock of the product of the new row.
\<close>

definition atualizar_estoque_compra ::
  "compra_insert \<Rightarrow> produto list \<Rightarrow> pg_error + produto list" where
  "atualizar_estoque_compra NEW ps =
     update_produtos_quantidade (\<lambda>quantidade. quantidade + ci_quantidade NEW) (ci_produto_id NEW) ps"

text \<open>
  \<^verbatim>\<open>SELECT preco_compra INTO preco_compra_produto FROM produtos WHERE id = NEW.produto_id\<close>:
  \<open>NULL\<close> when no row matches.
\<close>

definition select_preco_compra :: "uuid option \<Rightarrow> produto list \<Rightarrow> money option" where
  "select_preco_compra pid ps =
     (case pid of
        None \<Rightarrow> None
      | Some i \<Rightarrow> map_option p_preco_compra (find (\<lambda>p. p_id p = i) ps))"

text \<open>
  \<open>atualizar_estoque_venda\<close>, fired \<open>BEFORE INSERT ON vendas\<close>: reads the purchase cost of
  the product, sets \<open>NEW.lucro\<close> (\<open>NULL\<close> when the cost is \<open>NULL\<close>; the value must fit the
  column) and takes the sold quantity from the stock. It returns the profit of the new row
  and the updated product table.
\<close>

definition atualizar_estoque_venda ::
  "venda_insert \<Rightarrow> produto list \<Rightarrow> pg_error + (money option \<times> produto list)" where
  "atualizar_estoque_venda NEW ps =
     (let preco_compra_produto = select_preco_compra (vi_produto_id NEW) ps;
          lucro = map_option (\<lambda>c. (vi_preco_unitario NEW - c) * vi_quantidade NEW)
                    preco_compra_produto
      in if (case lucro of None \<Rightarrow> False | Some l \<Rightarrow> \<not> decimal_10_2 l)
         then Inl numeric_value_out_of_range
         else (case update_produtos_quantidade (\<lambda>quantidade. quantidade - vi_quantidade NEW)
                      (vi_produto_id NEW) ps of
                 Inl e \<Rightarrow> Inl e
               | Inr ps' \<Rightarrow> Inr (lucro, ps')))"

section \<open>Inserting purchases and sales\<close>

definition references_produto :: "uuid option \<Rightarrow> produto list \<Rightarrow> bool" where
  "references_produto pid ps \<longleftrightarrow>
     (case pid of None \<Rightarrow> True | Some i \<Rightarrow> i \<in> set (map p_id ps))"

definition references_fornecedor :: "uuid option \<Rightarrow> uuid list \<Rightarrow> bool" where
  "references_fornecedor fid fs \<longleftrightarrow> (case fid of None \<Rightarrow> True | Some i \<Rightarrow> i \<in> set fs)"

definition references_profile :: "uuid \<Rightarrow> profile list \<Rightarrow> bool" where
  "references_profile u prs \<longleftrightarrow> u \<in> set (map pr_id prs)"

text \<open>
  The row a statement stores. \<open>total\<close> is
  \<^verbatim>\<open>GENERATED ALWAYS AS (quantidade * preco_unitario) STORED\<close> in both tables; \<open>lucro\<close> is
  what the trigger put in \<open>NEW.lucro\<close>.
\<close>

definition compra_row :: "compra_insert \<Rightarrow> compra" where
  "compra_row NEW =
     \<lparr>c_fornecedor_id = ci_fornecedor_id NEW,
      c_produto_id = ci_produto_id NEW,
      c_quantidade = ci_quantidade NEW,
      c_preco_unitario = ci_preco_unitario NEW,
      c_total = ci_quantidade NEW * ci_preco_unitario NEW,
      c_user_id = ci_user_id NEW,
      c_observacoes = ci_observacoes NEW\<rparr>"

definition venda_row :: "venda_insert \<Rightarrow> money option \<Rightarrow> venda" where
  "venda_row NEW lucro =
     \<lparr>v_produto_id = vi_produto_id NEW,
      v_quantidade = vi_quantidade NEW,
      v_preco_unitario = vi_preco_unitario NEW,
      v_total = vi_quantidade NEW * vi_preco_unitario NEW,
      v_lucro = lucro,
      v_user_id = vi_user_id NEW,
      v_observacoes = vi_observacoes NEW\<rparr>"

text \<open>
  \<^verbatim>\<open>INSERT INTO compras\<close> by the session whose \<open>auth.uid()\<close> is \<open>auth_uid\<close>, as one
  statement: the values are converted to the column types, \<open>total\<close> is generated, the
  policy \<^verbatim>\<open>WITH CHECK (auth.uid() = user_id)\<close> and the \<open>CHECK\<close> constraints are tested, the
  row is stored, the foreign keys are checked and the trigger updates the stock. The
  \<open>CHECK\<close> constraints of a table are tested in the order of their names, so
  \<open>compras_preco_unitario_check\<close> comes before \<open>compras_quantidade_check\<close>. The result is
  the database the statement leaves when it completes.
\<close>

definition insert_compras_stmt ::
  "uuid option \<Rightarrow> database \<Rightarrow> compra_insert \<Rightarrow> pg_error + database" where
  "insert_compras_stmt auth_uid db NEW =
     (if \<not> int4 (ci_quantidade NEW) \<or> \<not> decimal_10_2 (ci_preco_unitario NEW)
        then Inl numeric_value_out_of_range
      else if \<not> decimal_10_2 (ci_quantidade NEW * ci_preco_unitario NEW)
        then Inl numeric_value_out_of_range
      else if auth_uid \<noteq> Some (ci_user_id NEW) then Inl insufficient_privilege
      else if \<not> ci_preco_unitario NEW \<ge> 0
        then Inl (check_violation ''compras_preco_unitario_check'')
      else if \<not> ci_quantidade NEW > 0 then Inl (check_violation ''compras_quantidade_check'')
      else if \<not> references_fornecedor (ci_fornecedor_id NEW) (fornecedores db)
        then Inl (foreign_key_violation ''compras_fornecedor_id_fkey'')
      else if \<not> references_produto (ci_produto_id NEW) (produtos db)
        then Inl (foreign_key_violation ''compras_produto_id_fkey'')
      else if \<not> references_profile (ci_user_id NEW) (profiles db)
        then Inl (foreign_key_violation ''compras_user_id_fkey'')
      else (case atualizar_estoque_compra NEW (produtos db) of
              Inl e \<Rightarrow> Inl e
            | Inr ps' \<Rightarrow>
                Inr (db\<lparr>produtos := ps', compras := compras db @ [compra_row NEW]\<rparr>)))"

text \<open>
  \<^verbatim>\<open>INSERT INTO vendas\<close>: the \<open>BEFORE INSERT\<close> trigger runs first, on the converted
  values; then \<open>total\<close> is generated and the policy, the \<open>CHECK\<close> constraints (in the
  order of their names) and the foreign keys are tested on the row the trigger returned.
\<close>

definition insert_vendas_stmt ::
  "uuid option \<Rightarrow> database \<Rightarrow> venda_insert \<Rightarrow> pg_error + database" where
  "insert_vendas_stmt auth_uid db NEW =
     (if \<not> int4 (vi_quantidade NEW) \<or> \<not> decimal_10_2 (vi_preco_unitario NEW)
        then Inl numeric_value_out_of_range
      else (case atualizar_estoque_venda NEW (produtos db) of
              Inl e \<Rightarrow> Inl e
            | Inr (lucro, ps') \<Rightarrow>
                if \<not> decimal_10_2 (vi_quantidade NEW * vi_preco_unitario NEW)
                  then Inl numeric_value_out_of_range
                else if auth_uid \<noteq> Some (vi_user_id NEW) then Inl insufficient_privilege
                else if \<not> vi_preco_unitario NEW \<ge> 0
                  then Inl (check_violation ''vendas_preco_unitario_check'')
                else if \<not> vi_quantidade NEW > 0
                  then Inl (check_violation ''vendas_quantidade_check'')
                else if \<not> references_produto (vi_produto_id NEW) ps'
                  then Inl (foreign_key_violation ''vendas_produto_id_fkey'')
                else if \<not> references_profile (vi_user_id NEW) (profiles db)
                  then Inl (foreign_key_violation ''vendas_user_id_fkey'')
                else Inr (db\<lparr>produtos := ps', vendas := vendas db @ [venda_row NEW lucro]\<rparr>)))"

text \<open>
  A statement that raises an error is rolled back: the caller gets the error and the
  database is the one before the statement. This is the \<open>{ error }\<close> the client reads.
\<close>

definition run_stmt :: "database \<Rightarrow> pg_error + database \<Rightarrow> pg_error option \<times> database" where
  "run_stmt db r = (case r of Inl e \<Rightarrow> (Some e, db) | Inr db' \<Rightarrow> (None, db'))"

definition insert_compras ::
  "uuid option \<Rightarrow> database \<Rightarrow> compra_insert \<Rightarrow> pg_error option \<times> database" where
  "insert_compras auth_uid db NEW = run_stmt db (insert_compras_stmt auth_uid db NEW)"

definition insert_vendas ::
  "uuid option \<Rightarrow> database \<Rightarrow> venda_insert \<Rightarrow> pg_error option \<times> database" where
  "insert_vendas auth_uid db NEW = run_stmt db (insert_vendas_stmt auth_uid db NEW)"

section \<open>Managing products\<close>

text \<open>
  The policy \<^verbatim>\<open>"Admins podem gerenciar produtos" FOR ALL USING (EXISTS (SELECT 1 FROM
  profiles WHERE id = auth.uid() AND role = 'admin'))\<close>.
\<close>

definition auth_is_admin :: "uuid option \<Rightarrow> profile list \<Rightarrow> bool" where
  "auth_is_admin auth_uid prs \<longleftrightarrow>
     (case auth_uid of
        None \<Rightarrow> False
      | Some u \<Rightarrow> list_ex (\<lambda>pr. pr_id pr = u \<and> pr_role pr = admin) prs)"

text \<open>Conversion of the supplied values to the column types of \<open>produtos\<close>.\<close>

definition produto_conversion :: "produto_data \<Rightarrow> pg_error option" where
  "produto_conversion d =
     (if \<not> decimal_10_2 (pd_preco_compra d) \<or> \<not> decimal_10_2 (pd_preco_venda d)
         \<or> \<not> int4 (pd_quantidade d) \<or> \<not> int4 (pd_quantidade_minima d)
        then Some numeric_value_out_of_range
      else if pd_validade d = None then Some invalid_datetime_format
      else None)"

text \<open>
  The constraints of \<open>produtos\<close> on a row with identifier \<open>pid\<close> and the supplied values.
  The three \<open>CHECK\<close>s are tested on the row before it is stored; \<open>codigo UNIQUE\<close> (against
  the rows with another identifier) is tested when the row enters the index, and the
  reference to \<open>categorias\<close> after that.
\<close>

definition produto_checks :: "produto_data \<Rightarrow> pg_error option" where
  "produto_checks d =
     (if \<not> pd_preco_compra d \<ge> 0 then Some (check_violation ''produtos_preco_compra_check'')
      else if \<not> pd_preco_venda d \<ge> 0 then Some (check_violation ''produtos_preco_venda_check'')
      else if \<not> pd_quantidade d \<ge> 0 then Some (check_violation ''produtos_quantidade_check'')
      else None)"

definition produto_keys :: "database \<Rightarrow> uuid \<Rightarrow> produto_data \<Rightarrow> pg_error option" where
  "produto_keys db pid d =
     (if list_ex (\<lambda>q. p_id q \<noteq> pid \<and> p_codigo q = pd_codigo d) (produtos db)
        then Some (unique_violation ''produtos_codigo_key'')
      else if pd_categoria_id d \<notin> set (categorias db)
        then Some (foreign_key_violation ''produtos_categoria_id_fkey'')
      else None)"

definition produto_constraints :: "database \<Rightarrow> uuid \<Rightarrow> produto_data \<Rightarrow> pg_error option" where
  "produto_constraints db pid d =
     (case produto_checks d of
        Some e \<Rightarrow> Some e
      | None \<Rightarrow> produto_keys db pid d)"

text \<open>
  The row an insert or update writes: every supplied column, quantity included. A row is
  built only after the conversion has accepted the values, so the expiry date is there.
\<close>

definition produto_row :: "uuid \<Rightarrow> produto_data \<Rightarrow> produto" where
  "produto_row pid d =
     \<lparr>p_id = pid,
      p_nome = pd_nome d,
      p_codigo = pd_codigo d,
      p_categoria_id = Some (pd_categoria_id d),
      p_preco_compra = pd_preco_compra d,
      p_preco_venda = pd_preco_venda d,
      p_quantidade = pd_quantidade d,
      p_quantidade_minima = Some (pd_quantidade_minima d),
      p_validade = (case pd_validade d of None \<Rightarrow> 0 | Some v \<Rightarrow> v),
      p_descricao = Some (pd_descricao d)\<rparr>"

text \<open>
  \<^verbatim>\<open>INSERT INTO produtos\<close>; \<open>new_id\<close> is the value \<open>gen_random_uuid()\<close> returns. The policy
  acts as the check of the new row; the primary key is tested after the \<open>CHECK\<close>s, when
  the row enters its index, before \<open>codigo UNIQUE\<close>.
\<close>

definition insert_produtos_stmt ::
  "uuid option \<Rightarrow> database \<Rightarrow> uuid \<Rightarrow> produto_data \<Rightarrow> pg_error + database" where
  "insert_produtos_stmt auth_uid db new_id d =
     (case produto_conversion d of
        Some e \<Rightarrow> Inl e
      | None \<Rightarrow>
          if \<not> auth_is_admin auth_uid (profiles db) then Inl insufficient_privilege
          else (case produto_checks d of
                  Some e \<Rightarrow> Inl e
                | None \<Rightarrow>
                    if new_id \<in> set (map p_id (produtos db))
                      then Inl (unique_violation ''produtos_pkey'')
                    else (case produto_keys db new_id d of
                            Some e \<Rightarrow> Inl e
                          | None \<Rightarrow>
                              Inr (db\<lparr>produtos := produtos db @ [produto_row new_id d]\<rparr>))))"

text \<open>
  \<^verbatim>\<open>UPDATE produtos SET ... WHERE id = pid\<close> with every column of the form. The policy
  hides every row from a session that is not an administrator's: the statement then
  changes nothing and raises nothing, as when no row has the identifier.
\<close>

definition update_produtos_stmt ::
  "uuid option \<Rightarrow> database \<Rightarrow> uuid \<Rightarrow> produto_data \<Rightarrow> pg_error + database" where
  "update_produtos_stmt auth_uid db pid d =
     (case produto_conversion d of
        Some e \<Rightarrow> Inl e
      | None \<Rightarrow>
          if \<not> auth_is_admin auth_uid (profiles db) then Inr db
          else if pid \<notin> set (map p_id (produtos db)) then Inr db
          else (case produto_constraints db pid d of
                  Some e \<Rightarrow> Inl e
                | None \<Rightarrow>
                    Inr (db\<lparr>produtos :=
                              map (\<lambda>p. if p_id p = pid then produto_row pid d else p)
                                (produtos db)\<rparr>)))"

text \<open>
  \<^verbatim>\<open>DELETE FROM produtos WHERE id = pid\<close>. Both \<open>compras.produto_id\<close> and
  \<open>vendas.produto_id\<close> are declared \<^verbatim>\<open>REFERENCES public.produtos(id) ON DELETE CASCADE\<close>: the
  rows that reference a deleted product are deleted with it.
\<close>

definition delete_produtos_stmt ::
  "uuid option \<Rightarrow> database \<Rightarrow> uuid \<Rightarrow> pg_error + database" where
  "delete_produtos_stmt auth_uid db pid =
     (if \<not> auth_is_admin auth_uid (profiles db) then Inr db
      else if pid \<notin> set (map p_id (produtos db)) then Inr db
      else Inr (db\<lparr>produtos := filter (\<lambda>p. p_id p \<noteq> pid) (produtos db),
                   compras := filter (\<lambda>c. c_produto_id c \<noteq> Some pid) (compras db),
                   vendas := filter (\<lambda>v. v_produto_id v \<noteq> Some pid) (vendas db)\<rparr>))"

definition insert_produtos ::
  "uuid option \<Rightarrow> database \<Rightarrow> uuid \<Rightarrow> produto_data \<Rightarrow> pg_error option \<times> database" where
  "insert_produtos auth_uid db new_id d = run_stmt db (insert_produtos_stmt auth_uid db new_id d)"

definition update_produtos ::
  "uuid option \<Rightarrow> database \<Rightarrow> uuid \<Rightarrow> produto_data \<Rightarrow> pg_error option \<times> database" where
  "update_produtos auth_uid db pid d = run_stmt db (update_produtos_stmt auth_uid db pid d)"

definition delete_produtos ::
  "uuid option \<Rightarrow> database \<Rightarrow> uuid \<Rightarrow> pg_error option \<times> database" where
  "delete_produtos auth_uid db pid = run_stmt db (delete_produtos_stmt auth_uid db pid)"

section \<open>The pages\<close>

text \<open>
  What a page holds of its user: the \<open>auth.uid()\<close> of the session its requests carry, and
  the profile \<open>useAuth()\<close> has loaded (\<open>null\<close> until it is).
\<close>

record client =
  session_uid :: "uuid option"
  cl_profile :: "profile option"

text \<open>
  The message a handler shows. \<open>Erro\<close> is the generic branch of the \<open>catch\<close> (or of a
  returned \<open>error\<close>), with what was thrown.
\<close>

datatype js_error = TypeError | PostgrestError pg_error

datatype toast =
    Sucesso
  | Zod_error
  | Estoque_insuficiente
  | Apenas_administradores
  | Erro js_error
  | Sem_toast

text \<open>
  The fields of the sale form after \<open>parseInt\<close> and \<open>parseFloat\<close>. \<open>None\<close> is \<open>NaN\<close> for a
  number, and a string that is not a UUID (the empty selection) for \<open>produto_id\<close>. An
  amount is the value in hundredths the column stores.
\<close>

record venda_form =
  vf_produto_id :: "uuid option"
  vf_quantidade :: "int option"
  vf_preco_unitario :: "money option"
  vf_observacoes :: string

text \<open>
  \<^verbatim>\<open>z.object({ produto_id: z.string().uuid(), quantidade: z.number().int().min(1),
  preco_unitario: z.number().min(0) })\<close>
\<close>

definition vendaSchema :: "uuid option \<Rightarrow> int option \<Rightarrow> money option \<Rightarrow> bool" where
  "vendaSchema produto_id quantidade preco_unitario \<longleftrightarrow>
     produto_id \<noteq> None
     \<and> (case quantidade of None \<Rightarrow> False | Some q \<Rightarrow> 1 \<le> q)
     \<and> (case preco_unitario of None \<Rightarrow> False | Some v \<Rightarrow> 0 \<le> v)"

text \<open>\<^verbatim>\<open>formData.observacoes || null\<close>\<close>

definition or_null :: "string \<Rightarrow> string option" where
  "or_null s = (if s = [] then None else Some s)"

text \<open>
  \<open>loadProdutos\<close> of the page \<open>Vendas\<close>: the products in stock
  (\<^verbatim>\<open>.gt('quantidade', 0)\<close>). The order by name is left out: the page looks a product up
  by its identifier.
\<close>

definition Vendas_loadProdutos :: "database \<Rightarrow> produto list" where
  "Vendas_loadProdutos db = filter (\<lambda>p. 0 < p_quantidade p) (produtos db)"

text \<open>
  \<open>handleSubmit\<close> of the page \<open>Vendas\<close>. \<open>produtos_state\<close> is the list \<open>loadProdutos\<close> stored
  when the page last loaded it. Reading \<open>profile.id\<close> of a \<open>null\<close> profile throws inside
  the \<open>try\<close>. The result is the message shown and the database afterwards.
\<close>

definition Vendas_handleSubmit ::
  "client \<Rightarrow> produto list \<Rightarrow> database \<Rightarrow> venda_form \<Rightarrow> toast \<times> database" where
  "Vendas_handleSubmit cl produtos_state db formData =
     (case cl_profile cl of
        None \<Rightarrow> (Erro TypeError, db)
      | Some profile \<Rightarrow>
          if \<not> vendaSchema (vf_produto_id formData) (vf_quantidade formData)
                 (vf_preco_unitario formData)
          then (Zod_error, db)
          else (case (vf_produto_id formData, vf_quantidade formData,
                      vf_preco_unitario formData) of
                  (Some pid, Some q, Some preco) \<Rightarrow>
                    (case find (\<lambda>p. p_id p = pid) produtos_state of
                       None \<Rightarrow> (Estoque_insuficiente, db)
                     | Some produto \<Rightarrow>
                         if p_quantidade produto < q then (Estoque_insuficiente, db)
                         else (case insert_vendas (session_uid cl) db
                                      \<lparr>vi_produto_id = Some pid,
                                       vi_quantidade = q,
                                       vi_preco_unitario = preco,
                                       vi_user_id = pr_id profile,
                                       vi_observacoes = or_null (vf_observacoes formData)\<rparr> of
                                 (Some e, db') \<Rightarrow> (Erro (PostgrestError e), db')
                               | (None, db') \<Rightarrow> (Sucesso, db')))
                | _ \<Rightarrow> (Zod_error, db)))"

text \<open>
  The purchase form. \<open>cf_fornecedor_id\<close> is \<open>None\<close> when no supplier is selected (the empty
  string). The handler sends \<^verbatim>\<open>formData.fornecedor_id || null\<close>, and the schema tests it
  with \<^verbatim>\<open>z.string().uuid().optional()\<close>, which admits a UUID or \<open>undefined\<close>.
\<close>

record compra_form =
  cf_produto_id :: "uuid option"
  cf_fornecedor_id :: "uuid option"
  cf_quantidade :: "int option"
  cf_preco_unitario :: "money option"
  cf_observacoes :: string

datatype js_uuid = Undefined | Null | Uuid uuid

definition uuid_or_null :: "uuid option \<Rightarrow> js_uuid" where
  "uuid_or_null s = (case s of None \<Rightarrow> Null | Some u \<Rightarrow> Uuid u)"

definition z_uuid_optional :: "js_uuid \<Rightarrow> bool" where
  "z_uuid_optional v \<longleftrightarrow> (case v of Undefined \<Rightarrow> True | Null \<Rightarrow> False | Uuid u \<Rightarrow> True)"

definition js_uuid_column :: "js_uuid \<Rightarrow> uuid option" where
  "js_uuid_column v = (case v of Uuid u \<Rightarrow> Some u | _ \<Rightarrow> None)"

definition compraSchema ::
  "uuid option \<Rightarrow> js_uuid \<Rightarrow> int option \<Rightarrow> money option \<Rightarrow> bool" where
  "compraSchema produto_id fornecedor_id quantidade preco_unitario \<longleftrightarrow>
     produto_id \<noteq> None
     \<and> z_uuid_optional fornecedor_id
     \<and> (case quantidade of None \<Rightarrow> False | Some q \<Rightarrow> 1 \<le> q)
     \<and> (case preco_unitario of None \<Rightarrow> False | Some v \<Rightarrow> 0 \<le> v)"

definition Compras_handleSubmit ::
  "client \<Rightarrow> database \<Rightarrow> compra_form \<Rightarrow> toast \<times> database" where
  "Compras_handleSubmit cl db formData =
     (case cl_profile cl of
        None \<Rightarrow> (Erro TypeError, db)
      | Some profile \<Rightarrow>
          if \<not> compraSchema (cf_produto_id formData) (uuid_or_null (cf_fornecedor_id formData))
                 (cf_quantidade formData) (cf_preco_unitario formData)
          then (Zod_error, db)
          else (case (cf_produto_id formData, cf_quantidade formData,
                      cf_preco_unitario formData) of
                  (Some pid, Some q, Some preco) \<Rightarrow>
                    (case insert_compras (session_uid cl) db
                            \<lparr>ci_produto_id = Some pid,
                             ci_fornecedor_id =
                               js_uuid_column (uuid_or_null (cf_fornecedor_id formData)),
                             ci_quantidade = q,
                             ci_preco_unitario = preco,
                             ci_user_id = pr_id profile,
                             ci_observacoes = or_null (cf_observacoes formData)\<rparr> of
                       (Some e, db') \<Rightarrow> (Erro (PostgrestError e), db')
                     | (None, db') \<Rightarrow> (Sucesso, db'))
                | _ \<Rightarrow> (Zod_error, db)))"

text \<open>
  The product form after parsing; \<open>pf_validade\<close> is \<open>None\<close> for a string that is not a date
  (the schema asks for a string only; the database refuses it).
\<close>

record produto_form =
  pf_nome :: string
  pf_codigo :: string
  pf_categoria_id :: "uuid option"
  pf_preco_compra :: "money option"
  pf_preco_venda :: "money option"
  pf_quantidade :: "int option"
  pf_quantidade_minima :: "int option"
  pf_validade :: "date option"
  pf_descricao :: string

definition z_number_min0 :: "int option \<Rightarrow> bool" where
  "z_number_min0 n \<longleftrightarrow> (case n of None \<Rightarrow> False | Some v \<Rightarrow> 0 \<le> v)"

definition produtoSchema :: "produto_form \<Rightarrow> bool" where
  "produtoSchema f \<longleftrightarrow>
     2 \<le> length (pf_nome f) \<and> length (pf_nome f) \<le> 200
     \<and> 1 \<le> length (pf_codigo f) \<and> length (pf_codigo f) \<le> 50
     \<and> pf_categoria_id f \<noteq> None
     \<and> z_number_min0 (pf_preco_compra f)
     \<and> z_number_min0 (pf_preco_venda f)
     \<and> z_number_min0 (pf_quantidade f)
     \<and> z_number_min0 (pf_quantidade_minima f)
     \<and> length (pf_descricao f) \<le> 500"

definition isAdmin :: "client \<Rightarrow> bool" where
  "isAdmin cl \<longleftrightarrow> (case cl_profile cl of None \<Rightarrow> False | Some profile \<Rightarrow> pr_role profile = admin)"

text \<open>
  \<open>handleSubmit\<close> of the page \<open>Produtos\<close>: \<open>editingProduto\<close> is the identifier of the product
  being edited, or \<open>None\<close> for a new product, which gets \<open>new_id\<close>. The object sent is the
  whole form, quantity included.
\<close>

definition Produtos_handleSubmit ::
  "client \<Rightarrow> uuid option \<Rightarrow> uuid \<Rightarrow> database \<Rightarrow> produto_form \<Rightarrow> toast \<times> database" where
  "Produtos_handleSubmit cl editingProduto new_id db formData =
     (if \<not> isAdmin cl then (Apenas_administradores, db)
      else if \<not> produtoSchema formData then (Zod_error, db)
      else (case (pf_categoria_id formData, pf_preco_compra formData, pf_preco_venda formData,
                  pf_quantidade formData, pf_quantidade_minima formData) of
              (Some categoria, Some preco_compra, Some preco_venda, Some quantidade,
               Some quantidade_minima) \<Rightarrow>
                (let data = \<lparr>pd_nome = pf_nome formData,
                             pd_codigo = pf_codigo formData,
                             pd_categoria_id = categoria,
                             pd_preco_compra = preco_compra,
                             pd_preco_venda = preco_venda,
                             pd_quantidade = quantidade,
                             pd_quantidade_minima = quantidade_minima,
                             pd_validade = pf_validade formData,
                             pd_descricao = pf_descricao formData\<rparr>
                 in case (case editingProduto of
                            Some pid \<Rightarrow> update_produtos (session_uid cl) db pid data
                          | None \<Rightarrow> insert_produtos (session_uid cl) db new_id data) of
                      (Some e, db') \<Rightarrow> (Erro (PostgrestError e), db')
                    | (None, db') \<Rightarrow> (Sucesso, db'))
            | _ \<Rightarrow> (Zod_error, db)))"

text \<open>\<open>handleDelete\<close> of the page \<open>Produtos\<close>; \<open>confirmed\<close> is the answer to \<open>confirm\<close>.\<close>

definition Produtos_handleDelete ::
  "client \<Rightarrow> bool \<Rightarrow> database \<Rightarrow> uuid \<Rightarrow> toast \<times> database" where
  "Produtos_handleDelete cl confirmed db pid =
     (if \<not> isAdmin cl then (Apenas_administradores, db)
      else if \<not> confirmed then (Sem_toast, db)
      else (case delete_produtos (session_uid cl) db pid of
              (Some e, db') \<Rightarrow> (Erro (PostgrestError e), db')
            | (None, db') \<Rightarrow> (Sucesso, db')))"

section \<open>Alerts\<close>

text \<open>
  The column \<open>status_alerta\<close> of the view \<open>produtos_com_alertas\<close>, with \<open>CURRENT_DATE\<close> as a
  parameter. A comparison with a \<open>NULL\<close> minimum is not true, so the \<open>CASE\<close> goes on.
\<close>

definition status_alerta :: "date \<Rightarrow> produto \<Rightarrow> string" where
  "status_alerta current_date p =
     (if (case p_quantidade_minima p of None \<Rightarrow> False | Some m \<Rightarrow> p_quantidade p \<le> m)
        then ''estoque_baixo''
      else if p_validade p \<le> current_date + 30 then ''validade_proxima''
      else ''ok'')"

text \<open>
  \<open>getStatusBadge\<close> of the page \<open>Produtos\<close>. \<open>hoje\<close> is \<open>new Date().getTime()\<close>, in
  milliseconds; \<open>new Date(produto.validade)\<close> is midnight UTC of the expiry day;
  \<open>Math.ceil\<close> of the quotient is the ceiling of the integer division. JavaScript reads a
  \<open>null\<close> minimum as 0 in \<open><=\<close>. No badge is \<open>None\<close>.
\<close>

datatype badge = Estoque_Baixo | Vencendo | Vencido

definition ms_per_day :: int where
  "ms_per_day = 1000 * 60 * 60 * 24"

definition diasParaVencer :: "int \<Rightarrow> produto \<Rightarrow> int" where
  "diasParaVencer hoje p = - ((- (p_validade p * ms_per_day - hoje)) div ms_per_day)"

definition getStatusBadge :: "int \<Rightarrow> produto \<Rightarrow> badge option" where
  "getStatusBadge hoje p =
     (if p_quantidade p \<le> (case p_quantidade_minima p of None \<Rightarrow> 0 | Some m \<Rightarrow> m)
        then Some Estoque_Baixo
      else if diasParaVencer hoje p \<le> 30 \<and> diasParaVencer hoje p \<ge> 0 then Some Vencendo
      else if diasParaVencer hoje p < 0 then Some Vencido
      else None)"

text \<open>
  The reference definition of the classifier, in the words of its four steps: low stock
  first, then expired, then expiring within 30 days, then ok.
\<close>

datatype AlertState = ok | low_stock | expiring_soon | expired

record snapshot =
  quantity :: int
  quantity_minimum :: int
  expiry_date :: date

definition Classify_spec :: "snapshot \<Rightarrow> date \<Rightarrow> AlertState" where
  "Classify_spec s today =
     (if quantity s \<le> quantity_minimum s then low_stock
      else if expiry_date s < today then expired
      else if expiry_date s \<le> today + 30 then expiring_soon
      else ok)"

text \<open>How the two classifiers of the code read as alert states.\<close>

definition badge_state :: "badge option \<Rightarrow> AlertState" where
  "badge_state b =
     (case b of
        None \<Rightarrow> ok
      | Some Estoque_Baixo \<Rightarrow> low_stock
      | Some Vencendo \<Rightarrow> expiring_soon
      | Some Vencido \<Rightarrow> expired)"

definition status_alerta_state :: "string \<Rightarrow> AlertState option" where
  "status_alerta_state s =
     (if s = ''estoque_baixo'' then Some low_stock
      else if s = ''validade_proxima'' then Some expiring_soon
      else if s = ''ok'' then Some ok
      else None)"

definition produto_snapshot :: "produto \<Rightarrow> snapshot option" where
  "produto_snapshot p =
     (case p_quantidade_minima p of
        None \<Rightarrow> None
      | Some m \<Rightarrow> Some \<lparr>quantity = p_quantidade p, quantity_minimum = m,
                       expiry_date = p_validade p\<rparr>)"

section \<open>Histories\<close>

text \<open>
  The statements the pages send, each with the \<open>auth.uid()\<close> of its session, and the
  database after a sequence of them. A statement that raises an error leaves the database
  as it was.
\<close>

datatype statement =
    Insert_compras "uuid option" compra_insert
  | Insert_vendas "uuid option" venda_insert
  | Insert_produtos "uuid option" uuid produto_data
  | Update_produtos "uuid option" uuid produto_data
  | Delete_produtos "uuid option" uuid

fun execute :: "database \<Rightarrow> statement \<Rightarrow> database" where
  "execute db (Insert_compras auth_uid NEW) = snd (insert_compras auth_uid db NEW)"
| "execute db (Insert_vendas auth_uid NEW) = snd (insert_vendas auth_uid db NEW)"
| "execute db (Insert_produtos auth_uid new_id d) = snd (insert_produtos auth_uid db new_id d)"
| "execute db (Update_produtos auth_uid pid d) = snd (update_produtos auth_uid db pid d)"
| "execute db (Delete_produtos auth_uid pid) = snd (delete_produtos auth_uid db pid)"

fun run :: "database \<Rightarrow> statement list \<Rightarrow> database" where
  "run db [] = db"
| "run db (s # ss) = run (execute db s) ss"

text \<open>
  The purchase and sale inserts are the events of the ledger; the deletion of a product
  is the one statement that removes rows.
\<close>

fun is_event :: "statement \<Rightarrow> bool" where
  "is_event (Insert_compras auth_uid NEW) = True"
| "is_event (Insert_vendas auth_uid NEW) = True"
| "is_event s = False"

fun is_delete :: "statement \<Rightarrow> bool" where
  "is_delete (Delete_produtos auth_uid pid) = True"
| "is_delete s = False"

text \<open>The quantities bought and sold of a product, summed over the two event tables.\<close>

definition comprado :: "database \<Rightarrow> uuid \<Rightarrow> int" where
  "comprado db pid =
     sum_list (map c_quantidade (filter (\<lambda>c. c_produto_id c = Some pid) (compras db)))"

definition vendido :: "database \<Rightarrow> uuid \<Rightarrow> int" where
  "vendido db pid =
     sum_list (map v_quantidade (filter (\<lambda>v. v_produto_id v = Some pid) (vendas db)))"

section \<open>A small pharmacy\<close>

text \<open>The concrete data the general results are instantiated at.\<close>

definition dipirona :: produto where
  "dipirona =
     \<lparr>p_id = 1, p_nome = ''Dipirona'', p_codigo = ''D-001'', p_categoria_id = Some 1,
      p_preco_compra = 1200, p_preco_venda = 2000, p_quantidade = 5,
      p_quantidade_minima = Some 10, p_validade = 20500, p_descricao = None\<rparr>"

definition farmacia :: database where
  "farmacia =
     \<lparr>profiles = [\<lparr>pr_id = 7, pr_role = vendedor\<rparr>, \<lparr>pr_id = 8, pr_role = admin\<rparr>],
      categorias = [1], fornecedores = [3], produtos = [dipirona], compras = [],
      vendas = []\<rparr>"

definition vendedor_7 :: client where
  "vendedor_7 = \<lparr>session_uid = Some 7, cl_profile = Some \<lparr>pr_id = 7, pr_role = vendedor\<rparr>\<rparr>"

definition admin_8 :: client where
  "admin_8 = \<lparr>session_uid = Some 8, cl_profile = Some \<lparr>pr_id = 8, pr_role = admin\<rparr>\<rparr>"

definition venda_de :: "int \<Rightarrow> venda_insert" where
  "venda_de q =
     \<lparr>vi_produto_id = Some 1, vi_quantidade = q, vi_preco_unitario = 2000, vi_user_id = 7,
      vi_observacoes = None\<rparr>"

definition pedido_de :: "int \<Rightarrow> venda_form" where
  "pedido_de q =
     \<lparr>vf_produto_id = Some 1, vf_quantidade = Some q, vf_preco_unitario = Some 2000,
      vf_observacoes = []\<rparr>"

definition farmacia_nova :: database where
  "farmacia_nova = farmacia\<lparr>produtos := [dipirona\<lparr>p_quantidade := 0\<rparr>]\<rparr>"

definition compra_de :: "int \<Rightarrow> compra_insert" where
  "compra_de q =
     \<lparr>ci_produto_id = Some 1, ci_fornecedor_id = None, ci_quantidade = q,
      ci_preco_unitario = 1200, ci_user_id = 7, ci_observacoes = None\<rparr>"

definition movimento :: "statement list" where
  "movimento = [Insert_compras (Some 7) (compra_de 10), Insert_vendas (Some 7) (venda_de 3),
                Insert_vendas (Some 7) (venda_de 100)]"

definition nova_dipirona :: produto_data where
  "nova_dipirona =
     \<lparr>pd_nome = ''Dipirona'', pd_codigo = ''D-001'', pd_categoria_id = 1,
      pd_preco_compra = 1500, pd_preco_venda = 2000, pd_quantidade = 0,
      pd_quantidade_minima = 10, pd_validade = Some 20500, pd_descricao = []\<rparr>"

definition farmacia_vendeu_5 :: database where
  "farmacia_vendeu_5 =
     farmacia\<lparr>produtos := [dipirona\<lparr>p_quantidade := 0\<rparr>],
              vendas := [\<lparr>v_produto_id = Some 1, v_quantidade = 5, v_preco_unitario = 2000,
                          v_total = 10000, v_lucro = Some 4000, v_user_id = 7,
                          v_observacoes = None\<rparr>]\<rparr>"

definition vencido_ontem :: produto where
  "vencido_ontem = dipirona\<lparr>p_quantidade := 50, p_validade := 20499\<rparr>"

definition compra_form_de :: "int \<Rightarrow> uuid option \<Rightarrow> compra_form" where
  "compra_form_de q fornecedor =
     \<lparr>cf_produto_id = Some 1, cf_fornecedor_id = fornecedor, cf_quantidade = Some q,
      cf_preco_unitario = Some 1200, cf_observacoes = []\<rparr>"

definition farmacia_comprou_10 :: database where
  "farmacia_comprou_10 =
     farmacia\<lparr>produtos := [dipirona\<lparr>p_quantidade := 15\<rparr>],
              compras := [compra_row (compra_de 10)]\<rparr>"

definition compra_sem_produto :: compra_insert where
  "compra_sem_produto =
     \<lparr>ci_produto_id = None, ci_fornecedor_id = Some 3, ci_quantidade = 4,
      ci_preco_unitario = 1200, ci_user_id = 7, ci_observacoes = None\<rparr>"

definition ficha_dipirona :: "int \<Rightarrow> produto_form" where
  "ficha_dipirona q =
     \<lparr>pf_nome = ''Dipirona'', pf_codigo = ''D-001'', pf_categoria_id = Some 1,
      pf_preco_compra = Some 1200, pf_preco_venda = Some 2000, pf_quantidade = Some q,
      pf_quantidade_minima = Some 10, pf_validade = Some 20500, pf_descricao = []\<rparr>"

definition paracetamol :: produto where
  "paracetamol =
     \<lparr>p_id = 2, p_nome = ''Paracetamol'', p_codigo = ''P-002'', p_categoria_id = Some 1,
      p_preco_compra = 800, p_preco_venda = 1500, p_quantidade = 20,
      p_quantidade_minima = Some 10, p_validade = 20700, p_descricao = None\<rparr>"

definition venda_paracetamol :: venda where
  "venda_paracetamol =
     \<lparr>v_produto_id = Some 2, v_quantidade = 2, v_preco_unitario = 1500, v_total = 3000,
      v_lucro = Some 1400, v_user_id = 7, v_observacoes = None\<rparr>"

definition farmacia_movimentada :: database where
  "farmacia_movimentada =
     farmacia\<lparr>produtos := [dipirona\<lparr>p_quantidade := 7\<rparr>, paracetamol],
              compras := [compra_row (compra_de 10)],
              vendas := [venda_row (venda_de 3) (Some 2400), venda_paracetamol]\<rparr>"

section \<open>The stock update\<close>

lemma update_quantidade_null: "update_produtos_quantidade f None ps = Inr ps"
  by (induction ps) auto

lemma update_quantidade_result:
  "update_produtos_quantidade f pid ps = Inr ps' \<Longrightarrow>
   ps' = map (\<lambda>p. if Some (p_id p) = pid then p\<lparr>p_quantidade := f (p_quantidade p)\<rparr> else p) ps"
  by (induction ps arbitrary: ps') (auto split: if_splits sum.splits)

lemma update_quantidade_fails:
  "find (\<lambda>p. p_id p = i) ps = Some p \<Longrightarrow> f (p_quantidade p) < 0 \<Longrightarrow>
   update_produtos_quantidade f (Some i) ps = Inl (check_violation ''produtos_quantidade_check'')
   \<or> update_produtos_quantidade f (Some i) ps = Inl numeric_value_out_of_range"
  by (induction ps) (auto split: if_splits sum.splits)

lemma update_quantidade_check:
  "find (\<lambda>p. p_id p = i) ps = Some p \<Longrightarrow> f (p_quantidade p) < 0 \<Longrightarrow>
   int4 (f (p_quantidade p)) \<Longrightarrow>
   update_produtos_quantidade f (Some i) ps = Inl (check_violation ''produtos_quantidade_check'')"
  by (induction ps) (auto split: if_splits sum.splits)

lemma update_quantidade_ok:
  "\<forall>p\<in>set ps. Some (p_id p) = pid \<longrightarrow> int4 (f (p_quantidade p)) \<and> 0 \<le> f (p_quantidade p) \<Longrightarrow>
   update_produtos_quantidade f pid ps =
     Inr (map (\<lambda>p. if Some (p_id p) = pid then p\<lparr>p_quantidade := f (p_quantidade p)\<rparr> else p) ps)"
  by (induction ps) auto

section \<open>Sales beyond the stock\<close>

lemma find_unique:
  "distinct (map g xs) \<Longrightarrow> find (\<lambda>x. g x = k) xs = Some x \<Longrightarrow> y \<in> set xs \<Longrightarrow> g y = k \<Longrightarrow> y = x"
  by (induction xs) (auto split: if_splits)

lemma find_filter_unique:
  "distinct (map g xs) \<Longrightarrow> find (\<lambda>x. g x = k) xs = Some x \<Longrightarrow>
   find (\<lambda>x. g x = k) (filter Q xs) = Some y \<Longrightarrow> y = x"
  by (rule find_unique [where xs = xs and g = g and k = k])
     (auto simp: find_Some_iff dest: nth_mem)

lemma insert_vendas_short:
  assumes found: "find (\<lambda>p. p_id p = pid) (produtos db) = Some p"
    and ref: "vi_produto_id NEW = Some pid"
    and short: "p_quantidade p < vi_quantidade NEW"
  shows "insert_vendas uid db NEW = (Some (check_violation ''produtos_quantidade_check''), db)
       \<or> insert_vendas uid db NEW = (Some numeric_value_out_of_range, db)"
proof -
  have "update_produtos_quantidade (\<lambda>quantidade. quantidade - vi_quantidade NEW) (Some pid)
          (produtos db) = Inl (check_violation ''produtos_quantidade_check'')
      \<or> update_produtos_quantidade (\<lambda>quantidade. quantidade - vi_quantidade NEW) (Some pid)
          (produtos db) = Inl numeric_value_out_of_range"
    using short by (intro update_quantidade_fails [OF found]) simp
  then show ?thesis
    by (auto simp: insert_vendas_def run_stmt_def insert_vendas_stmt_def
        atualizar_estoque_venda_def ref Let_def split: option.splits)
qed

lemma insert_vendas_short_check:
  assumes found: "find (\<lambda>p. p_id p = pid) (produtos db) = Some p"
    and ref: "vi_produto_id NEW = Some pid"
    and short: "p_quantidade p < vi_quantidade NEW"
    and fits: "int4 (vi_quantidade NEW)" "decimal_10_2 (vi_preco_unitario NEW)"
       "decimal_10_2 ((vi_preco_unitario NEW - p_preco_compra p) * vi_quantidade NEW)"
    and nonneg: "0 \<le> p_quantidade p"
  shows "insert_vendas uid db NEW = (Some (check_violation ''produtos_quantidade_check''), db)"
proof -
  have "update_produtos_quantidade (\<lambda>quantidade. quantidade - vi_quantidade NEW) (Some pid)
          (produtos db) = Inl (check_violation ''produtos_quantidade_check'')"
    using short nonneg fits(1) by (intro update_quantidade_check [OF found]) (simp_all add: int4_def)
  with fits show ?thesis
    by (simp add: insert_vendas_def run_stmt_def insert_vendas_stmt_def
        atualizar_estoque_venda_def ref Let_def select_preco_compra_def found)
qed

lemma Vendas_handleSubmit_short:
  assumes found: "find (\<lambda>p. p_id p = pid) (produtos db) = Some p"
    and short: "p_quantidade p < q"
    and form: "vf_produto_id f = Some pid" "vf_quantidade f = Some q"
  shows "snd (Vendas_handleSubmit cl st db f) = db \<and> fst (Vendas_handleSubmit cl st db f) \<noteq> Sucesso"
proof -
  have ins: "insert_vendas uid db NEW = (Some (check_violation ''produtos_quantidade_check''), db)
       \<or> insert_vendas uid db NEW = (Some numeric_value_out_of_range, db)"
    if "vi_produto_id NEW = Some pid" "vi_quantidade NEW = q" for uid NEW
    using insert_vendas_short [OF found that(1)] short that(2) by simp
  show ?thesis
  proof (cases "cl_profile cl")
    case None
    then show ?thesis by (simp add: Vendas_handleSubmit_def)
  next
    case (Some pr)
    show ?thesis
    proof (cases "vf_preco_unitario f")
      case None
      then show ?thesis using Some by (simp add: Vendas_handleSubmit_def vendaSchema_def)
    next
      case preco: (Some preco)
      let ?NEW = "\<lparr>vi_produto_id = Some pid, vi_quantidade = q, vi_preco_unitario = preco,
          vi_user_id = pr_id pr, vi_observacoes = or_null (vf_observacoes f)\<rparr>"
      from ins [of ?NEW "session_uid cl"] show ?thesis
        using Some preco form
        by (auto simp: Vendas_handleSubmit_def split: option.splits)
    qed
  qed
qed

lemma Vendas_handleSubmit_short_loaded:
  assumes found: "find (\<lambda>p. p_id p = pid) (produtos db) = Some p"
    and short: "p_quantidade p < q"
    and form: "vf_produto_id f = Some pid" "vf_quantidade f = Some q"
    and key: "distinct (map p_id (produtos db))"
    and loaded: "cl_profile cl \<noteq> None"
    and valid: "vendaSchema (vf_produto_id f) (vf_quantidade f) (vf_preco_unitario f)"
  shows "Vendas_handleSubmit cl (Vendas_loadProdutos db) db f = (Estoque_insuficiente, db)"
proof -
  have "p' = p" if "find (\<lambda>p. p_id p = pid) (Vendas_loadProdutos db) = Some p'" for p'
    using find_filter_unique [OF key found] that by (simp add: Vendas_loadProdutos_def)
  then show ?thesis
    using form loaded valid short
    by (auto simp: Vendas_handleSubmit_def vendaSchema_def split: option.splits)
qed

text \<open>
  Claim C1. A sale whose quantity exceeds the quantity the product has when the row is
  inserted is rejected and nothing changes: the database after the statement is the
  database before it, so the stock is the same and \<open>vendas\<close> has no new row. The insert
  fails on the stock constraint \<open>produtos_quantidade_check\<close>, raised by the update of the
  trigger (a request whose values do not fit their columns fails on that instead, and
  with values that fit the error is the stock constraint). The page never reports success
  and leaves the database as it was, whatever product list it holds; with the list
  \<open>loadProdutos\<close> reads from this database, a loaded profile and a form the schema
  accepts, it shows the insufficient-stock message without sending the insert.
\<close>

theorem sale_beyond_stock_rejected:
  assumes found: "find (\<lambda>p. p_id p = pid) (produtos db) = Some p"
    and short: "p_quantidade p < q"
    and row: "vi_produto_id NEW = Some pid" "vi_quantidade NEW = q"
    and form: "vf_produto_id f = Some pid" "vf_quantidade f = Some q"
  shows "(insert_vendas uid db NEW = (Some (check_violation ''produtos_quantidade_check''), db)
          \<or> insert_vendas uid db NEW = (Some numeric_value_out_of_range, db))
       \<and> (int4 q \<and> decimal_10_2 (vi_preco_unitario NEW)
            \<and> decimal_10_2 ((vi_preco_unitario NEW - p_preco_compra p) * q)
            \<and> 0 \<le> p_quantidade p
          \<longrightarrow> insert_vendas uid db NEW
                = (Some (check_violation ''produtos_quantidade_check''), db))
       \<and> snd (Vendas_handleSubmit cl st db f) = db
       \<and> fst (Vendas_handleSubmit cl st db f) \<noteq> Sucesso
       \<and> (distinct (map p_id (produtos db)) \<and> cl_profile cl \<noteq> None
            \<and> vendaSchema (vf_produto_id f) (vf_quantidade f) (vf_preco_unitario f)
          \<longrightarrow> Vendas_handleSubmit cl (Vendas_loadProdutos db) db f = (Estoque_insuficiente, db))"
proof -
  have short': "p_quantidade p < vi_quantidade NEW"
    using short row(2) by simp
  have a: "insert_vendas uid db NEW = (Some (check_violation ''produtos_quantidade_check''), db)
          \<or> insert_vendas uid db NEW = (Some numeric_value_out_of_range, db)"
    by (rule insert_vendas_short [OF found row(1) short'])
  have b: "insert_vendas uid db NEW = (Some (check_violation ''produtos_quantidade_check''), db)"
    if "int4 q" "decimal_10_2 (vi_preco_unitario NEW)"
      "decimal_10_2 ((vi_preco_unitario NEW - p_preco_compra p) * q)" "0 \<le> p_quantidade p"
    using insert_vendas_short_check [OF found row(1) short'] that row(2) by simp
  note c = Vendas_handleSubmit_short [OF found short form, of cl st]
  have d: "Vendas_handleSubmit cl (Vendas_loadProdutos db) db f = (Estoque_insuficiente, db)"
    if "distinct (map p_id (produtos db))" "cl_profile cl \<noteq> None"
      "vendaSchema (vf_produto_id f) (vf_quantidade f) (vf_preco_unitario f)"
    by (rule Vendas_handleSubmit_short_loaded [OF found short form that])
  from a b c d show ?thesis by blast
qed

theorem sale_beyond_stock_rejected_witness:
  "insert_vendas (Some 7) farmacia (venda_de 100)
     = (Some (check_violation ''produtos_quantidade_check''), farmacia)
   \<and> Vendas_handleSubmit vendedor_7 (Vendas_loadProdutos farmacia) farmacia (pedido_de 100)
     = (Estoque_insuficiente, farmacia)
   \<and> p_quantidade dipirona = 5 \<and> vendas farmacia = []"
proof -
  have found: "find (\<lambda>p. p_id p = 1) (produtos farmacia) = Some dipirona"
    by (simp add: farmacia_def dipirona_def)
  have short: "p_quantidade dipirona < 100"
    by (simp add: dipirona_def)
  have row: "vi_produto_id (venda_de 100) = Some 1" "vi_quantidade (venda_de 100) = 100"
    by (simp_all add: venda_de_def)
  have form: "vf_produto_id (pedido_de 100) = Some 1" "vf_quantidade (pedido_de 100) = Some 100"
    by (simp_all add: pedido_de_def)
  have fits: "int4 100 \<and> decimal_10_2 (vi_preco_unitario (venda_de 100))
      \<and> decimal_10_2 ((vi_preco_unitario (venda_de 100) - p_preco_compra dipirona) * 100)
      \<and> 0 \<le> p_quantidade dipirona"
    by (simp add: int4_def decimal_10_2_def venda_de_def dipirona_def)
  have page: "distinct (map p_id (produtos farmacia)) \<and> cl_profile vendedor_7 \<noteq> None
      \<and> vendaSchema (vf_produto_id (pedido_de 100)) (vf_quantidade (pedido_de 100))
           (vf_preco_unitario (pedido_de 100))"
    by (simp add: farmacia_def vendedor_7_def pedido_de_def vendaSchema_def)
  from sale_beyond_stock_rejected [OF found short row form,
      of "Some 7" vendedor_7 "Vendas_loadProdutos farmacia"] fits page
  show ?thesis
    by (simp add: dipirona_def farmacia_def)
qed

section \<open>Committed statements\<close>

lemma update_quantidade_nonneg:
  "update_produtos_quantidade f pid ps = Inr ps' \<Longrightarrow> p \<in> set ps \<Longrightarrow> Some (p_id p) = pid \<Longrightarrow>
   0 \<le> f (p_quantidade p)"
  by (induction ps arbitrary: ps') (auto split: if_splits sum.splits)

lemma run_stmt_rejected: "run_stmt db r = (Some e, db') \<Longrightarrow> db' = db"
  by (auto simp: run_stmt_def split: sum.splits)

lemma run_stmt_committed: "run_stmt db r = (None, db') \<Longrightarrow> r = Inr db'"
  by (auto simp: run_stmt_def split: sum.splits)

lemma insert_compras_rejected: "insert_compras uid db NEW = (Some e, db') \<Longrightarrow> db' = db"
  unfolding insert_compras_def by (rule run_stmt_rejected)

lemma insert_vendas_rejected: "insert_vendas uid db NEW = (Some e, db') \<Longrightarrow> db' = db"
  unfolding insert_vendas_def by (rule run_stmt_rejected)

lemma insert_compras_committed:
  assumes "insert_compras uid db NEW = (None, db')"
  shows "db' = db\<lparr>produtos :=
                 map (\<lambda>p. if Some (p_id p) = ci_produto_id NEW
                          then p\<lparr>p_quantidade := p_quantidade p + ci_quantidade NEW\<rparr> else p)
                   (produtos db),
               compras := compras db @ [compra_row NEW]\<rparr>"
    and "0 < ci_quantidade NEW"
proof -
  have stmt: "insert_compras_stmt uid db NEW = Inr db'"
    using assms unfolding insert_compras_def by (rule run_stmt_committed)
  then obtain ps' where upd: "atualizar_estoque_compra NEW (produtos db) = Inr ps'"
    and db': "db' = db\<lparr>produtos := ps', compras := compras db @ [compra_row NEW]\<rparr>"
    by (auto simp: insert_compras_stmt_def split: if_splits sum.splits)
  from upd show "db' = db\<lparr>produtos :=
                 map (\<lambda>p. if Some (p_id p) = ci_produto_id NEW
                          then p\<lparr>p_quantidade := p_quantidade p + ci_quantidade NEW\<rparr> else p)
                   (produtos db),
               compras := compras db @ [compra_row NEW]\<rparr>"
    unfolding db' atualizar_estoque_compra_def
    by (simp add: update_quantidade_result [of _ _ _ ps'])
  from stmt show "0 < ci_quantidade NEW"
    by (auto simp: insert_compras_stmt_def split: if_splits)
qed

lemma insert_vendas_committed:
  assumes "insert_vendas uid db NEW = (None, db')"
  shows "db' = db\<lparr>produtos :=
                 map (\<lambda>p. if Some (p_id p) = vi_produto_id NEW
                          then p\<lparr>p_quantidade := p_quantidade p - vi_quantidade NEW\<rparr> else p)
                   (produtos db),
               vendas := vendas db @
                 [venda_row NEW
                    (map_option (\<lambda>c. (vi_preco_unitario NEW - c) * vi_quantidade NEW)
                       (select_preco_compra (vi_produto_id NEW) (produtos db)))]\<rparr>"
    and "0 < vi_quantidade NEW"
    and "\<forall>p\<in>set (produtos db). Some (p_id p) = vi_produto_id NEW \<longrightarrow>
           0 \<le> p_quantidade p - vi_quantidade NEW"
proof -
  let ?lucro = "map_option (\<lambda>c. (vi_preco_unitario NEW - c) * vi_quantidade NEW)
                       (select_preco_compra (vi_produto_id NEW) (produtos db))"
  have stmt: "insert_vendas_stmt uid db NEW = Inr db'"
    using assms unfolding insert_vendas_def by (rule run_stmt_committed)
  then obtain ps' where
    upd: "update_produtos_quantidade (\<lambda>quantidade. quantidade - vi_quantidade NEW)
            (vi_produto_id NEW) (produtos db) = Inr ps'"
    and db': "db' = db\<lparr>produtos := ps', vendas := vendas db @ [venda_row NEW ?lucro]\<rparr>"
    and pos: "0 < vi_quantidade NEW"
    by (auto simp: insert_vendas_stmt_def atualizar_estoque_venda_def Let_def
        split: if_splits sum.splits)
  from upd show "db' = db\<lparr>produtos :=
                 map (\<lambda>p. if Some (p_id p) = vi_produto_id NEW
                          then p\<lparr>p_quantidade := p_quantidade p - vi_quantidade NEW\<rparr> else p)
                   (produtos db),
               vendas := vendas db @ [venda_row NEW ?lucro]\<rparr>"
    unfolding db' by (simp add: update_quantidade_result [of _ _ _ ps'])
  show "0 < vi_quantidade NEW" by (rule pos)
  show "\<forall>p\<in>set (produtos db). Some (p_id p) = vi_produto_id NEW \<longrightarrow>
           0 \<le> p_quantidade p - vi_quantidade NEW"
    using update_quantidade_nonneg [OF upd] by blast
qed

section \<open>The ledger invariant\<close>

lemma execute_event_ledger:
  assumes ev: "is_event s"
    and inv: "\<forall>p\<in>set (produtos db). p_id p = pid \<longrightarrow>
               p_quantidade p = comprado db pid - vendido db pid \<and> 0 \<le> p_quantidade p"
  shows "map p_id (produtos (execute db s)) = map p_id (produtos db)
       \<and> (\<forall>p\<in>set (produtos (execute db s)). p_id p = pid \<longrightarrow>
             p_quantidade p = comprado (execute db s) pid - vendido (execute db s) pid
             \<and> 0 \<le> p_quantidade p)"
proof (cases s)
  case (Insert_compras uid NEW)
  show ?thesis
  proof (cases "insert_compras uid db NEW")
    case (Pair r db')
    show ?thesis
    proof (cases r)
      case None
      note c = insert_compras_committed [OF Pair [unfolded None]]
      have ex: "execute db s = db'" using Insert_compras Pair by simp
      have ids: "map p_id (produtos db') = map p_id (produtos db)"
        by (subst c(1)) (simp add: comp_def)
      have cv: "comprado db' pid = comprado db pid
                  + (if ci_produto_id NEW = Some pid then ci_quantidade NEW else 0)"
        "vendido db' pid = vendido db pid"
        by (subst c(1), simp add: comprado_def vendido_def compra_row_def)+
      have "p_quantidade p = comprado db' pid - vendido db' pid \<and> 0 \<le> p_quantidade p"
        if "p \<in> set (produtos db')" "p_id p = pid" for p
      proof -
        from that(1) obtain p0 where p0: "p0 \<in> set (produtos db)"
          and p: "p = (if Some (p_id p0) = ci_produto_id NEW
                       then p0\<lparr>p_quantidade := p_quantidade p0 + ci_quantidade NEW\<rparr> else p0)"
          by (subst (asm) c(1)) auto
        have "p_id p0 = pid" using p that(2) by (auto split: if_splits)
        with inv p0 have "p_quantidade p0 = comprado db pid - vendido db pid \<and> 0 \<le> p_quantidade p0"
          by blast
        then show ?thesis
          using p cv c(2) \<open>p_id p0 = pid\<close> by (auto split: if_splits)
      qed
      then show ?thesis unfolding ex using ids by blast
    next
      case (Some e)
      have "execute db s = db"
        using Insert_compras Pair Some insert_compras_rejected [of uid db NEW e db'] by simp
      with inv show ?thesis by (simp only:)
    qed
  qed
next
  case (Insert_vendas uid NEW)
  show ?thesis
  proof (cases "insert_vendas uid db NEW")
    case (Pair r db')
    show ?thesis
    proof (cases r)
      case None
      note c = insert_vendas_committed [OF Pair [unfolded None]]
      have ex: "execute db s = db'" using Insert_vendas Pair by simp
      have ids: "map p_id (produtos db') = map p_id (produtos db)"
        by (subst c(1)) (simp add: comp_def)
      have cv: "vendido db' pid = vendido db pid
                  + (if vi_produto_id NEW = Some pid then vi_quantidade NEW else 0)"
        "comprado db' pid = comprado db pid"
        by (subst c(1), simp add: comprado_def vendido_def venda_row_def)+
      have "p_quantidade p = comprado db' pid - vendido db' pid \<and> 0 \<le> p_quantidade p"
        if "p \<in> set (produtos db')" "p_id p = pid" for p
      proof -
        from that(1) obtain p0 where p0: "p0 \<in> set (produtos db)"
          and p: "p = (if Some (p_id p0) = vi_produto_id NEW
                       then p0\<lparr>p_quantidade := p_quantidade p0 - vi_quantidade NEW\<rparr> else p0)"
          by (subst (asm) c(1)) auto
        have "p_id p0 = pid" using p that(2) by (auto split: if_splits)
        with inv p0 have "p_quantidade p0 = comprado db pid - vendido db pid \<and> 0 \<le> p_quantidade p0"
          by blast
        then show ?thesis
          using p cv c(3) p0 \<open>p_id p0 = pid\<close> by (auto split: if_splits)
      qed
      then show ?thesis unfolding ex using ids by blast
    next
      case (Some e)
      have "execute db s = db"
        using Insert_vendas Pair Some insert_vendas_rejected [of uid db NEW e db'] by simp
      with inv show ?thesis by (simp only:)
    qed
  qed
qed (use ev in simp_all)

lemma run_events_ledger:
  assumes "\<forall>s\<in>set ss. is_event s"
    and "\<forall>p\<in>set (produtos db). p_id p = pid \<longrightarrow>
               p_quantidade p = comprado db pid - vendido db pid \<and> 0 \<le> p_quantidade p"
  shows "map p_id (produtos (run db ss)) = map p_id (produtos db)
       \<and> (\<forall>p\<in>set (produtos (run db ss)). p_id p = pid \<longrightarrow>
             p_quantidade p = comprado (run db ss) pid - vendido (run db ss) pid
             \<and> 0 \<le> p_quantidade p)"
  using assms
proof (induction ss arbitrary: db)
  case Nil
  then show ?case by (simp only: run.simps)
next
  case (Cons s ss)
  from Cons.prems have ev: "is_event s" and rest: "\<forall>s\<in>set ss. is_event s" by simp_all
  note step = execute_event_ledger [OF ev Cons.prems(2)]
  note ih = Cons.IH [OF rest step [THEN conjunct2]]
  show ?case
    unfolding run.simps
    by (intro conjI) (rule trans [OF ih [THEN conjunct1] step [THEN conjunct1]],
      rule ih [THEN conjunct2])
qed

text \<open>
  Claim C2. Start from a database in which a product has quantity 0 and no purchase or
  sale row, and send any sequence of purchase and sale inserts (for any products, by any
  sessions; the rejected ones leave no trace). After every number of them, the product is
  still there and its quantity is the sum of the quantities of its rows in \<open>compras\<close> minus
  the sum of the quantities of its rows in \<open>vendas\<close>, and is not negative.
\<close>

theorem stock_is_purchases_minus_sales:
  assumes events: "\<forall>s\<in>set ss. is_event s"
    and zero: "\<forall>p\<in>set (produtos db). p_id p = pid \<longrightarrow> p_quantidade p = 0"
    and no_compras: "\<forall>c\<in>set (compras db). c_produto_id c \<noteq> Some pid"
    and no_vendas: "\<forall>v\<in>set (vendas db). v_produto_id v \<noteq> Some pid"
  shows "map p_id (produtos (run db (take n ss))) = map p_id (produtos db)
       \<and> (\<forall>p\<in>set (produtos (run db (take n ss))). p_id p = pid \<longrightarrow>
             p_quantidade p = comprado (run db (take n ss)) pid - vendido (run db (take n ss)) pid
             \<and> 0 \<le> p_quantidade p)"
proof -
  have c0: "comprado db pid = 0"
    using no_compras by (simp add: comprado_def)
  have v0: "vendido db pid = 0"
    using no_vendas by (simp add: vendido_def)
  have start: "\<forall>p\<in>set (produtos db). p_id p = pid \<longrightarrow>
               p_quantidade p = comprado db pid - vendido db pid \<and> 0 \<le> p_quantidade p"
    using zero c0 v0 by simp
  have "\<forall>s\<in>set (take n ss). is_event s"
    using events by (meson in_set_takeD)
  from run_events_ledger [OF this start] show ?thesis .
qed

lemma run_movimento:
  "run farmacia_nova movimento =
     farmacia_nova\<lparr>produtos := [dipirona\<lparr>p_quantidade := 7\<rparr>],
                    compras := [compra_row (compra_de 10)],
                    vendas := [venda_row (venda_de 3) (Some 2400)]\<rparr>"
  by (simp add: movimento_def farmacia_nova_def farmacia_def dipirona_def compra_de_def
      venda_de_def insert_compras_def insert_vendas_def run_stmt_def insert_compras_stmt_def
      insert_vendas_stmt_def atualizar_estoque_compra_def atualizar_estoque_venda_def
      select_preco_compra_def int4_def decimal_10_2_def references_produto_def
      references_fornecedor_def references_profile_def Let_def)

theorem stock_is_purchases_minus_sales_witness:
  "map p_id (produtos (run farmacia_nova (take 3 movimento))) = [1]
   \<and> p_quantidade (dipirona\<lparr>p_quantidade := 7\<rparr>)
       = comprado (run farmacia_nova (take 3 movimento)) 1
         - vendido (run farmacia_nova (take 3 movimento)) 1
   \<and> produtos (run farmacia_nova movimento) = [dipirona\<lparr>p_quantidade := 7\<rparr>]
   \<and> comprado (run farmacia_nova movimento) 1 = 10
   \<and> vendido (run farmacia_nova movimento) 1 = 3"
proof -
  have events: "\<forall>s\<in>set movimento. is_event s"
    by (simp add: movimento_def)
  have zero: "\<forall>p\<in>set (produtos farmacia_nova). p_id p = 1 \<longrightarrow> p_quantidade p = 0"
    by (simp add: farmacia_nova_def)
  have no_compras: "\<forall>c\<in>set (compras farmacia_nova). c_produto_id c \<noteq> Some 1"
    by (simp add: farmacia_nova_def farmacia_def)
  have no_vendas: "\<forall>v\<in>set (vendas farmacia_nova). v_produto_id v \<noteq> Some 1"
    by (simp add: farmacia_nova_def farmacia_def)
  note ledger = stock_is_purchases_minus_sales [OF events zero no_compras no_vendas, of 3]
  have all: "take 3 movimento = movimento"
    by (simp add: movimento_def)
  have ids: "map p_id (produtos farmacia_nova) = [1]"
    by (simp add: farmacia_nova_def dipirona_def)
  have row: "dipirona\<lparr>p_quantidade := 7\<rparr> \<in> set (produtos (run farmacia_nova (take 3 movimento)))"
    by (simp add: all run_movimento)
  have key: "p_id (dipirona\<lparr>p_quantidade := 7\<rparr>) = 1"
    by (simp add: dipirona_def)
  from ledger ids have c1: "map p_id (produtos (run farmacia_nova (take 3 movimento))) = [1]"
    by simp
  from ledger row key
  have c2: "p_quantidade (dipirona\<lparr>p_quantidade := 7\<rparr>)
       = comprado (run farmacia_nova (take 3 movimento)) 1
         - vendido (run farmacia_nova (take 3 movimento)) 1"
    by blast
  have c3: "produtos (run farmacia_nova movimento) = [dipirona\<lparr>p_quantidade := 7\<rparr>]"
    by (simp add: run_movimento)
  have c4: "comprado (run farmacia_nova movimento) 1 = 10"
    by (simp add: run_movimento comprado_def compra_row_def compra_de_def)
  have c5: "vendido (run farmacia_nova movimento) 1 = 3"
    by (simp add: run_movimento vendido_def venda_row_def venda_de_def)
  from c1 c2 c3 c4 c5 show ?thesis
    by (intro conjI)
qed

section \<open>What a statement does to the event tables\<close>

lemma insert_compras_vendas: "vendas (snd (insert_compras uid db NEW)) = vendas db"
  by (auto simp: insert_compras_def run_stmt_def insert_compras_stmt_def
      split: sum.splits if_splits)

lemma insert_vendas_compras: "compras (snd (insert_vendas uid db NEW)) = compras db"
  by (auto simp: insert_vendas_def run_stmt_def insert_vendas_stmt_def
      split: sum.splits if_splits prod.splits)

lemma insert_compras_appends: "\<exists>xs. compras (snd (insert_compras uid db NEW)) = compras db @ xs"
  by (auto simp: insert_compras_def run_stmt_def insert_compras_stmt_def
      split: sum.splits if_splits)

lemma insert_vendas_appends: "\<exists>xs. vendas (snd (insert_vendas uid db NEW)) = vendas db @ xs"
  by (auto simp: insert_vendas_def run_stmt_def insert_vendas_stmt_def
      split: sum.splits if_splits prod.splits)

lemma insert_produtos_events:
  "compras (snd (insert_produtos uid db i d)) = compras db"
  "vendas (snd (insert_produtos uid db i d)) = vendas db"
  by (auto simp: insert_produtos_def run_stmt_def insert_produtos_stmt_def
      split: sum.splits if_splits option.splits)

lemma update_produtos_events:
  "compras (snd (update_produtos uid db i d)) = compras db"
  "vendas (snd (update_produtos uid db i d)) = vendas db"
  by (auto simp: update_produtos_def run_stmt_def update_produtos_stmt_def
      split: sum.splits if_splits option.splits)

lemma execute_appends:
  assumes "\<not> is_delete s"
  shows "(\<exists>xs. compras (execute db s) = compras db @ xs)
       \<and> (\<exists>ys. vendas (execute db s) = vendas db @ ys)"
proof (cases s)
  case (Insert_compras uid NEW)
  then show ?thesis
    using insert_compras_appends [of uid db NEW] by (simp add: insert_compras_vendas)
next
  case (Insert_vendas uid NEW)
  then show ?thesis
    using insert_vendas_appends [of uid db NEW] by (simp add: insert_vendas_compras)
next
  case (Insert_produtos uid i d)
  then show ?thesis by (simp add: insert_produtos_events)
next
  case (Update_produtos uid i d)
  then show ?thesis by (simp add: update_produtos_events)
next
  case (Delete_produtos uid i)
  with assms show ?thesis by simp
qed

lemma run_appends:
  assumes "\<forall>s\<in>set ss. \<not> is_delete s"
  shows "(\<exists>xs. compras (run db ss) = compras db @ xs)
       \<and> (\<exists>ys. vendas (run db ss) = vendas db @ ys)"
  using assms
proof (induction ss arbitrary: db)
  case Nil
  then show ?case by simp
next
  case (Cons s ss)
  then have s: "\<not> is_delete s" and ss: "\<forall>s\<in>set ss. \<not> is_delete s" by simp_all
  from execute_appends [OF s, of db] obtain xs ys
    where 1: "compras (execute db s) = compras db @ xs" "vendas (execute db s) = vendas db @ ys"
    by blast
  from Cons.IH [OF ss, of "execute db s"] obtain xs' ys'
    where 2: "compras (run (execute db s) ss) = compras (execute db s) @ xs'"
      "vendas (run (execute db s) ss) = vendas (execute db s) @ ys'"
    by blast
  from 1 2 show ?case by simp
qed

section \<open>The two alert classifiers\<close>

lemma diasParaVencer_days:
  "diasParaVencer hoje p = p_validade p - hoje div ms_per_day"
proof -
  have "(hoje - p_validade p * ms_per_day) div ms_per_day = hoje div ms_per_day - p_validade p"
    using div_mult_self1 [of ms_per_day hoje "- p_validade p"]
    by (simp add: ms_per_day_def)
  then show ?thesis
    by (simp add: diasParaVencer_def)
qed

text \<open>
  The badge of the page \<open>Produtos\<close> is the reference classifier, with the UTC day of
  \<open>hoje\<close> as today, for every product with a minimum.
\<close>

lemma getStatusBadge_Classify:
  assumes "produto_snapshot p = Some s"
  shows "badge_state (getStatusBadge hoje p) = Classify_spec s (hoje div ms_per_day)"
  using assms
  by (auto simp: produto_snapshot_def getStatusBadge_def Classify_spec_def badge_state_def
      diasParaVencer_days split: option.splits)

text \<open>
  The view agrees with the reference classifier except on the products the reference
  calls expired; the view has no such state.
\<close>

lemma status_alerta_Classify:
  assumes "produto_snapshot p = Some s"
    and "Classify_spec s today \<noteq> expired"
  shows "status_alerta_state (status_alerta today p) = Some (Classify_spec s today)"
  using assms
  by (auto simp: produto_snapshot_def status_alerta_def Classify_spec_def
      status_alerta_state_def split: option.splits if_splits)

lemma status_alerta_never_expired:
  "status_alerta_state (status_alerta today p) \<noteq> Some expired"
  by (simp add: status_alerta_def status_alerta_state_def)

text \<open>
  Claim C4. The classifier is to return low stock first, then expired when the expiry
  date is before today, then expiring soon within 30 days, then ok. The view
  \<open>produtos_com_alertas\<close> does not: for a product with 50 units, minimum 10, that expired
  yesterday it reports \<open>validade_proxima\<close> (expiring soon), where the reference definition
  gives expired and the badge of the page \<open>Produtos\<close> shows \<open>Vencido\<close>.
\<close>

theorem view_reports_expired_as_expiring:
  "status_alerta 20500 vencido_ontem = ''validade_proxima''
   \<and> status_alerta_state (status_alerta 20500 vencido_ontem) = Some expiring_soon
   \<and> map_option (\<lambda>s. Classify_spec s 20500) (produto_snapshot vencido_ontem) = Some expired
   \<and> getStatusBadge (20500 * ms_per_day + 3600000) vencido_ontem = Some Vencido"
  by (simp add: vencido_ontem_def dipirona_def status_alerta_def status_alerta_state_def
      Classify_spec_def produto_snapshot_def getStatusBadge_def diasParaVencer_def
      ms_per_day_def)

section \<open>Accepted inserts\<close>

lemma insert_vendas_ok:
  assumes fits: "int4 (vi_quantidade NEW)" "decimal_10_2 (vi_preco_unitario NEW)"
      "decimal_10_2 (vi_quantidade NEW * vi_preco_unitario NEW)"
    and lucro: "\<forall>c. select_preco_compra (vi_produto_id NEW) (produtos db) = Some c \<longrightarrow>
                 decimal_10_2 ((vi_preco_unitario NEW - c) * vi_quantidade NEW)"
    and stock: "\<forall>p\<in>set (produtos db). Some (p_id p) = vi_produto_id NEW \<longrightarrow>
                 int4 (p_quantidade p - vi_quantidade NEW) \<and> 0 \<le> p_quantidade p - vi_quantidade NEW"
    and policy: "uid = Some (vi_user_id NEW)"
    and checks: "0 < vi_quantidade NEW" "0 \<le> vi_preco_unitario NEW"
    and refs: "references_produto (vi_produto_id NEW) (produtos db)"
      "references_profile (vi_user_id NEW) (profiles db)"
  shows "insert_vendas uid db NEW =
     (None, db\<lparr>produtos :=
                 map (\<lambda>p. if Some (p_id p) = vi_produto_id NEW
                          then p\<lparr>p_quantidade := p_quantidade p - vi_quantidade NEW\<rparr> else p)
                   (produtos db),
               vendas := vendas db @
                 [venda_row NEW
                    (map_option (\<lambda>c. (vi_preco_unitario NEW - c) * vi_quantidade NEW)
                       (select_preco_compra (vi_produto_id NEW) (produtos db)))]\<rparr>)"
proof -
  have upd: "update_produtos_quantidade (\<lambda>quantidade. quantidade - vi_quantidade NEW)
               (vi_produto_id NEW) (produtos db)
             = Inr (map (\<lambda>p. if Some (p_id p) = vi_produto_id NEW
                          then p\<lparr>p_quantidade := p_quantidade p - vi_quantidade NEW\<rparr> else p)
                   (produtos db))"
    using stock by (intro update_quantidade_ok) simp
  have ref': "references_produto (vi_produto_id NEW)
       (map (\<lambda>p. if Some (p_id p) = vi_produto_id NEW
                          then p\<lparr>p_quantidade := p_quantidade p - vi_quantidade NEW\<rparr> else p)
                   (produtos db))"
    using refs(1) by (auto simp: references_produto_def split: option.splits)
  show ?thesis
    using fits lucro policy checks refs(2) ref'
    by (cases "select_preco_compra (vi_produto_id NEW) (produtos db)")
       (simp_all add: insert_vendas_def run_stmt_def insert_vendas_stmt_def
         atualizar_estoque_venda_def upd Let_def)
qed

lemma insert_compras_ok:
  assumes fits: "int4 (ci_quantidade NEW)" "decimal_10_2 (ci_preco_unitario NEW)"
      "decimal_10_2 (ci_quantidade NEW * ci_preco_unitario NEW)"
    and stock: "\<forall>p\<in>set (produtos db). Some (p_id p) = ci_produto_id NEW \<longrightarrow>
                 int4 (p_quantidade p + ci_quantidade NEW) \<and> 0 \<le> p_quantidade p + ci_quantidade NEW"
    and policy: "uid = Some (ci_user_id NEW)"
    and checks: "0 < ci_quantidade NEW" "0 \<le> ci_preco_unitario NEW"
    and refs: "references_fornecedor (ci_fornecedor_id NEW) (fornecedores db)"
      "references_produto (ci_produto_id NEW) (produtos db)"
      "references_profile (ci_user_id NEW) (profiles db)"
  shows "insert_compras uid db NEW =
     (None, db\<lparr>produtos :=
                 map (\<lambda>p. if Some (p_id p) = ci_produto_id NEW
                          then p\<lparr>p_quantidade := p_quantidade p + ci_quantidade NEW\<rparr> else p)
                   (produtos db),
               compras := compras db @ [compra_row NEW]\<rparr>)"
proof -
  have upd: "update_produtos_quantidade (\<lambda>quantidade. quantidade + ci_quantidade NEW)
               (ci_produto_id NEW) (produtos db)
             = Inr (map (\<lambda>p. if Some (p_id p) = ci_produto_id NEW
                          then p\<lparr>p_quantidade := p_quantidade p + ci_quantidade NEW\<rparr> else p)
                   (produtos db))"
    using stock by (intro update_quantidade_ok) simp
  show ?thesis
    using fits policy checks refs
    by (simp add: insert_compras_def run_stmt_def insert_compras_stmt_def
         atualizar_estoque_compra_def upd)
qed

lemma insert_vendas_zero:
  assumes "vi_quantidade NEW \<le> 0"
  shows "fst (insert_vendas uid db NEW) \<noteq> None \<and> snd (insert_vendas uid db NEW) = db"
  using assms
  by (auto simp: insert_vendas_def run_stmt_def insert_vendas_stmt_def
      split: sum.splits if_splits prod.splits)

lemma insert_compras_zero:
  assumes "ci_quantidade NEW \<le> 0"
  shows "fst (insert_compras uid db NEW) \<noteq> None \<and> snd (insert_compras uid db NEW) = db"
  using assms
  by (auto simp: insert_compras_def run_stmt_def insert_compras_stmt_def
      split: sum.splits if_splits)

lemma Vendas_handleSubmit_zero:
  assumes "cl_profile cl \<noteq> None" "vf_quantidade f = Some 0"
  shows "Vendas_handleSubmit cl st db f = (Zod_error, db)"
  using assms by (auto simp: Vendas_handleSubmit_def vendaSchema_def)

lemma Compras_handleSubmit_zero:
  assumes "cl_profile cl \<noteq> None" "cf_quantidade f = Some 0"
  shows "Compras_handleSubmit cl db f = (Zod_error, db)"
  using assms by (auto simp: Compras_handleSubmit_def compraSchema_def)

text \<open>
  The page \<open>Compras\<close> refuses what the table admits. With no supplier selected the handler
  sends \<open>null\<close>, which \<^verbatim>\<open>z.string().uuid().optional()\<close> rejects, although the form labels
  the field \<open>opcional\<close>; and with no product selected the schema fails on \<open>produto_id\<close>.
\<close>

lemma Compras_handleSubmit_sem_fornecedor:
  assumes "cl_profile cl \<noteq> None" "cf_fornecedor_id f = None"
  shows "Compras_handleSubmit cl db f = (Zod_error, db)"
  using assms
  by (auto simp: Compras_handleSubmit_def compraSchema_def uuid_or_null_def z_uuid_optional_def)

lemma Compras_handleSubmit_sem_produto:
  assumes "cl_profile cl \<noteq> None" "cf_produto_id f = None"
  shows "Compras_handleSubmit cl db f = (Zod_error, db)"
  using assms by (auto simp: Compras_handleSubmit_def compraSchema_def)

lemma find_map_quantidade:
  "find (\<lambda>p. p_id p = pid) ps = Some p \<Longrightarrow>
   find (\<lambda>p. p_id p = pid)
     (map (\<lambda>p. if Some (p_id p) = Some pid then p\<lparr>p_quantidade := g (p_quantidade p)\<rparr> else p) ps)
   = Some (p\<lparr>p_quantidade := g (p_quantidade p)\<rparr>)"
  by (induction ps) (auto split: if_splits)

lemma find_filter_keeps:
  "find P xs = Some x \<Longrightarrow> Q x \<Longrightarrow> find P (filter Q xs) = Some x"
  by (induction xs) (auto split: if_splits)

lemma find_Some_id: "find (\<lambda>p. p_id p = pid) ps = Some p \<Longrightarrow> p \<in> set ps \<and> p_id p = pid"
  by (induction ps) (auto split: if_splits)

lemma insert_vendas_exact_stock:
  assumes key: "distinct (map p_id (produtos db))"
    and found: "find (\<lambda>p. p_id p = pid) (produtos db) = Some p"
    and row: "vi_produto_id NEW = Some pid" "vi_quantidade NEW = p_quantidade p"
    and pos: "0 < p_quantidade p" "int4 (p_quantidade p)"
    and preco: "0 \<le> vi_preco_unitario NEW" "decimal_10_2 (vi_preco_unitario NEW)"
      "decimal_10_2 (p_quantidade p * vi_preco_unitario NEW)"
      "decimal_10_2 ((vi_preco_unitario NEW - p_preco_compra p) * p_quantidade p)"
    and user: "uid = Some (vi_user_id NEW)" "references_profile (vi_user_id NEW) (profiles db)"
  shows "fst (insert_vendas uid db NEW) = None
       \<and> find (\<lambda>p. p_id p = pid) (produtos (snd (insert_vendas uid db NEW)))
           = Some (p\<lparr>p_quantidade := 0\<rparr>)
       \<and> vendas (snd (insert_vendas uid db NEW)) = vendas db @
           [venda_row NEW (Some ((vi_preco_unitario NEW - p_preco_compra p) * p_quantidade p))]"
proof -
  note mem = find_Some_id [OF found]
  have cost: "select_preco_compra (vi_produto_id NEW) (produtos db) = Some (p_preco_compra p)"
    by (simp add: select_preco_compra_def row found)
  have cost': "select_preco_compra (Some pid) (produtos db) = Some (p_preco_compra p)"
    using cost by (simp add: row)
  have stock: "\<forall>p'\<in>set (produtos db). Some (p_id p') = vi_produto_id NEW \<longrightarrow>
      int4 (p_quantidade p' - vi_quantidade NEW) \<and> 0 \<le> p_quantidade p' - vi_quantidade NEW"
  proof (intro ballI impI)
    fix p' assume "p' \<in> set (produtos db)" "Some (p_id p') = vi_produto_id NEW"
    then have "p' = p"
      using find_unique [OF key found, of p'] row(1) by simp
    then show "int4 (p_quantidade p' - vi_quantidade NEW) \<and> 0 \<le> p_quantidade p' - vi_quantidade NEW"
      by (simp add: row(2) int4_def)
  qed
  have ref: "references_produto (vi_produto_id NEW) (produtos db)"
    using mem by (auto simp: references_produto_def row(1))
  have "insert_vendas uid db NEW =
     (None, db\<lparr>produtos :=
                 map (\<lambda>p. if Some (p_id p) = vi_produto_id NEW
                          then p\<lparr>p_quantidade := p_quantidade p - vi_quantidade NEW\<rparr> else p)
                   (produtos db),
               vendas := vendas db @
                 [venda_row NEW
                    (map_option (\<lambda>c. (vi_preco_unitario NEW - c) * vi_quantidade NEW)
                       (select_preco_compra (vi_produto_id NEW) (produtos db)))]\<rparr>)"
    using pos preco user ref stock
    by (intro insert_vendas_ok) (simp_all add: row(2) cost)
  then show ?thesis
    using find_map_quantidade [OF found, of "\<lambda>q. q - vi_quantidade NEW"]
    by (simp add: row cost')
qed

lemma Vendas_handleSubmit_exact_stock:
  assumes key: "distinct (map p_id (produtos db))"
    and found: "find (\<lambda>p. p_id p = pid) (produtos db) = Some p"
    and form: "vf_produto_id f = Some pid" "vf_quantidade f = Some (p_quantidade p)"
      "vf_preco_unitario f = Some preco"
    and pos: "0 < p_quantidade p" "int4 (p_quantidade p)"
    and preco: "0 \<le> preco" "decimal_10_2 preco" "decimal_10_2 (p_quantidade p * preco)"
      "decimal_10_2 ((preco - p_preco_compra p) * p_quantidade p)"
    and user: "cl_profile cl = Some pr" "session_uid cl = Some (pr_id pr)"
      "references_profile (pr_id pr) (profiles db)"
  shows "fst (Vendas_handleSubmit cl (Vendas_loadProdutos db) db f) = Sucesso
       \<and> find (\<lambda>p. p_id p = pid)
           (produtos (snd (Vendas_handleSubmit cl (Vendas_loadProdutos db) db f)))
           = Some (p\<lparr>p_quantidade := 0\<rparr>)
       \<and> length (vendas (snd (Vendas_handleSubmit cl (Vendas_loadProdutos db) db f)))
           = Suc (length (vendas db))"
proof -
  let ?NEW = "\<lparr>vi_produto_id = Some pid, vi_quantidade = p_quantidade p,
      vi_preco_unitario = preco, vi_user_id = pr_id pr,
      vi_observacoes = or_null (vf_observacoes f)\<rparr>"
  note mem = find_Some_id [OF found]
  have "find (\<lambda>p. p_id p = pid) (Vendas_loadProdutos db) = Some p"
    unfolding Vendas_loadProdutos_def using found pos(1) by (rule find_filter_keeps)
  moreover note ins = insert_vendas_exact_stock [OF key found, of ?NEW "session_uid cl"]
  ultimately show ?thesis
    using form pos preco user
    by (auto simp: Vendas_handleSubmit_def vendaSchema_def split: prod.splits option.splits)
qed

section \<open>Quantity zero and the last unit\<close>

lemma insert_compras_zero_check:
  assumes "ci_quantidade NEW = 0" "decimal_10_2 (ci_preco_unitario NEW)"
    "0 \<le> ci_preco_unitario NEW" "uid = Some (ci_user_id NEW)"
  shows "insert_compras uid db NEW = (Some (check_violation ''compras_quantidade_check''), db)"
  using assms
  by (simp add: insert_compras_def run_stmt_def insert_compras_stmt_def int4_def
      decimal_10_2_def)

lemma insert_vendas_zero_check:
  assumes zero: "vi_quantidade NEW = 0" and fits: "decimal_10_2 (vi_preco_unitario NEW)"
    and preco: "0 \<le> vi_preco_unitario NEW"
    and policy: "uid = Some (vi_user_id NEW)"
    and table: "\<forall>p\<in>set (produtos db). int4 (p_quantidade p) \<and> 0 \<le> p_quantidade p"
  shows "insert_vendas uid db NEW = (Some (check_violation ''vendas_quantidade_check''), db)"
proof -
  have upd: "\<exists>ps'. update_produtos_quantidade (\<lambda>quantidade. quantidade - vi_quantidade NEW)
               (vi_produto_id NEW) (produtos db) = Inr ps'"
    using table by (subst update_quantidade_ok) (simp_all add: zero)
  then obtain ps' where "update_produtos_quantidade (\<lambda>quantidade. quantidade - vi_quantidade NEW)
               (vi_produto_id NEW) (produtos db) = Inr ps'" ..
  then show ?thesis
    using zero fits preco policy
    by (cases "select_preco_compra (vi_produto_id NEW) (produtos db)")
       (simp_all add: insert_vendas_def run_stmt_def insert_vendas_stmt_def
         atualizar_estoque_venda_def int4_def decimal_10_2_def Let_def)
qed

text \<open>
  Claim C5. A sale or a purchase of quantity 0 is refused as invalid input, not passed
  over in silence: both pages show the validation error of their schema
  (\<^verbatim>\<open>quantidade: z.number().int().min(1)\<close>) and send nothing, and the tables refuse such a
  row themselves, leaving the database as it was; the error is that of
  \<^verbatim>\<open>CHECK (quantidade > 0)\<close> when the row is valid otherwise, its price not negative
  (the price constraint is tested first). A sale of
  exactly the quantity in stock, otherwise valid, succeeds: the page reports success, one
  row is added to \<open>vendas\<close> and the product's quantity becomes exactly 0.
\<close>

theorem zero_quantity_refused_exact_stock_sells_out:
  "(cl_profile cl \<noteq> None \<and> vf_quantidade f = Some 0
      \<longrightarrow> Vendas_handleSubmit cl st db f = (Zod_error, db))
   \<and> (cl_profile cl \<noteq> None \<and> cf_quantidade g = Some 0
      \<longrightarrow> Compras_handleSubmit cl db g = (Zod_error, db))
   \<and> (vi_quantidade V = 0
      \<longrightarrow> fst (insert_vendas uid db V) \<noteq> None \<and> snd (insert_vendas uid db V) = db)
   \<and> (vi_quantidade V = 0 \<and> decimal_10_2 (vi_preco_unitario V) \<and> 0 \<le> vi_preco_unitario V
        \<and> uid = Some (vi_user_id V)
        \<and> (\<forall>p\<in>set (produtos db). int4 (p_quantidade p) \<and> 0 \<le> p_quantidade p)
      \<longrightarrow> insert_vendas uid db V = (Some (check_violation ''vendas_quantidade_check''), db))
   \<and> (ci_quantidade C = 0
      \<longrightarrow> fst (insert_compras uid db C) \<noteq> None \<and> snd (insert_compras uid db C) = db)
   \<and> (ci_quantidade C = 0 \<and> decimal_10_2 (ci_preco_unitario C) \<and> 0 \<le> ci_preco_unitario C
        \<and> uid = Some (ci_user_id C)
      \<longrightarrow> insert_compras uid db C = (Some (check_violation ''compras_quantidade_check''), db))
   \<and> (distinct (map p_id (produtos db))
        \<and> find (\<lambda>p. p_id p = pid) (produtos db) = Some p
        \<and> vf_produto_id f = Some pid \<and> vf_quantidade f = Some (p_quantidade p)
        \<and> vf_preco_unitario f = Some preco
        \<and> 0 < p_quantidade p \<and> int4 (p_quantidade p)
        \<and> 0 \<le> preco \<and> decimal_10_2 preco \<and> decimal_10_2 (p_quantidade p * preco)
        \<and> decimal_10_2 ((preco - p_preco_compra p) * p_quantidade p)
        \<and> cl_profile cl = Some pr \<and> session_uid cl = Some (pr_id pr)
        \<and> references_profile (pr_id pr) (profiles db)
      \<longrightarrow> fst (Vendas_handleSubmit cl (Vendas_loadProdutos db) db f) = Sucesso
          \<and> find (\<lambda>p. p_id p = pid)
               (produtos (snd (Vendas_handleSubmit cl (Vendas_loadProdutos db) db f)))
              = Some (p\<lparr>p_quantidade := 0\<rparr>)
          \<and> length (vendas (snd (Vendas_handleSubmit cl (Vendas_loadProdutos db) db f)))
              = Suc (length (vendas db)))"
proof (intro conjI impI; (elim conjE)?)
  show "Vendas_handleSubmit cl st db f = (Zod_error, db)"
    if "cl_profile cl \<noteq> None" "vf_quantidade f = Some 0"
    using that by (rule Vendas_handleSubmit_zero)
  show "Compras_handleSubmit cl db g = (Zod_error, db)"
    if "cl_profile cl \<noteq> None" "cf_quantidade g = Some 0"
    using that by (rule Compras_handleSubmit_zero)
  show "fst (insert_vendas uid db V) \<noteq> None" "snd (insert_vendas uid db V) = db"
    if "vi_quantidade V = 0"
    using insert_vendas_zero [of V uid db] that by simp_all
  show "insert_vendas uid db V = (Some (check_violation ''vendas_quantidade_check''), db)"
    if "vi_quantidade V = 0" "decimal_10_2 (vi_preco_unitario V)" "0 \<le> vi_preco_unitario V"
      "uid = Some (vi_user_id V)"
      "\<forall>p\<in>set (produtos db). int4 (p_quantidade p) \<and> 0 \<le> p_quantidade p"
    using that by (rule insert_vendas_zero_check)
  show "fst (insert_compras uid db C) \<noteq> None" "snd (insert_compras uid db C) = db"
    if "ci_quantidade C = 0"
    using insert_compras_zero [of C uid db] that by simp_all
  show "insert_compras uid db C = (Some (check_violation ''compras_quantidade_check''), db)"
    if "ci_quantidade C = 0" "decimal_10_2 (ci_preco_unitario C)" "0 \<le> ci_preco_unitario C"
      "uid = Some (ci_user_id C)"
    using that by (rule insert_compras_zero_check)
next
  assume a: "distinct (map p_id (produtos db))"
    "find (\<lambda>p. p_id p = pid) (produtos db) = Some p"
    "vf_produto_id f = Some pid" "vf_quantidade f = Some (p_quantidade p)"
    "vf_preco_unitario f = Some preco"
    "0 < p_quantidade p" "int4 (p_quantidade p)"
    "0 \<le> preco" "decimal_10_2 preco" "decimal_10_2 (p_quantidade p * preco)"
    "decimal_10_2 ((preco - p_preco_compra p) * p_quantidade p)"
    "cl_profile cl = Some pr" "session_uid cl = Some (pr_id pr)"
    "references_profile (pr_id pr) (profiles db)"
  note page = Vendas_handleSubmit_exact_stock [OF a]
  from page show "fst (Vendas_handleSubmit cl (Vendas_loadProdutos db) db f) = Sucesso" by blast
  from page show "find (\<lambda>p. p_id p = pid)
               (produtos (snd (Vendas_handleSubmit cl (Vendas_loadProdutos db) db f)))
              = Some (p\<lparr>p_quantidade := 0\<rparr>)" by blast
  from page show "length (vendas (snd (Vendas_handleSubmit cl (Vendas_loadProdutos db) db f)))
              = Suc (length (vendas db))" by blast
qed

theorem zero_quantity_refused_exact_stock_sells_out_witness:
  "Vendas_handleSubmit vendedor_7 (Vendas_loadProdutos farmacia) farmacia (pedido_de 0)
     = (Zod_error, farmacia)
   \<and> Compras_handleSubmit vendedor_7 farmacia (compra_form_de 0 (Some 3)) = (Zod_error, farmacia)
   \<and> insert_vendas (Some 7) farmacia (venda_de 0)
     = (Some (check_violation ''vendas_quantidade_check''), farmacia)
   \<and> insert_compras (Some 7) farmacia (compra_de 0)
     = (Some (check_violation ''compras_quantidade_check''), farmacia)
   \<and> fst (Vendas_handleSubmit vendedor_7 (Vendas_loadProdutos farmacia) farmacia (pedido_de 5))
     = Sucesso
   \<and> find (\<lambda>p. p_id p = 1)
        (produtos (snd (Vendas_handleSubmit vendedor_7 (Vendas_loadProdutos farmacia) farmacia
           (pedido_de 5))))
     = Some (dipirona\<lparr>p_quantidade := 0\<rparr>)"
proof -
  note zero = zero_quantity_refused_exact_stock_sells_out
      [where cl = vendedor_7 and f = "pedido_de 0" and st = "Vendas_loadProdutos farmacia"
        and db = farmacia and g = "compra_form_de 0 (Some 3)" and V = "venda_de 0"
        and uid = "Some 7" and C = "compra_de 0"]
  note exact = zero_quantity_refused_exact_stock_sells_out
      [where cl = vendedor_7 and f = "pedido_de 5" and db = farmacia and pid = 1
        and p = dipirona and preco = 2000 and pr = "\<lparr>pr_id = 7, pr_role = vendedor\<rparr>"]
  have h1: "cl_profile vendedor_7 \<noteq> None \<and> vf_quantidade (pedido_de 0) = Some 0"
    by (simp add: vendedor_7_def pedido_de_def)
  have h2: "cl_profile vendedor_7 \<noteq> None \<and> cf_quantidade (compra_form_de 0 (Some 3)) = Some 0"
    by (simp add: vendedor_7_def compra_form_de_def)
  have h3: "vi_quantidade (venda_de 0) = 0 \<and> decimal_10_2 (vi_preco_unitario (venda_de 0))
      \<and> 0 \<le> vi_preco_unitario (venda_de 0)
      \<and> Some 7 = Some (vi_user_id (venda_de 0))
      \<and> (\<forall>p\<in>set (produtos farmacia). int4 (p_quantidade p) \<and> 0 \<le> p_quantidade p)"
    by (simp add: venda_de_def decimal_10_2_def farmacia_def dipirona_def int4_def)
  have h4: "ci_quantidade (compra_de 0) = 0 \<and> decimal_10_2 (ci_preco_unitario (compra_de 0))
      \<and> 0 \<le> ci_preco_unitario (compra_de 0)
      \<and> Some 7 = Some (ci_user_id (compra_de 0))"
    by (simp add: compra_de_def decimal_10_2_def)
  have h5: "distinct (map p_id (produtos farmacia))
        \<and> find (\<lambda>p. p_id p = 1) (produtos farmacia) = Some dipirona
        \<and> vf_produto_id (pedido_de 5) = Some 1
        \<and> vf_quantidade (pedido_de 5) = Some (p_quantidade dipirona)
        \<and> vf_preco_unitario (pedido_de 5) = Some 2000
        \<and> 0 < p_quantidade dipirona \<and> int4 (p_quantidade dipirona)
        \<and> (0::int) \<le> 2000 \<and> decimal_10_2 2000 \<and> decimal_10_2 (p_quantidade dipirona * 2000)
        \<and> decimal_10_2 ((2000 - p_preco_compra dipirona) * p_quantidade dipirona)
        \<and> cl_profile vendedor_7 = Some \<lparr>pr_id = 7, pr_role = vendedor\<rparr>
        \<and> session_uid vendedor_7 = Some (pr_id \<lparr>pr_id = 7, pr_role = vendedor\<rparr>)
        \<and> references_profile (pr_id \<lparr>pr_id = 7, pr_role = vendedor\<rparr>) (profiles farmacia)"
    by (simp add: farmacia_def dipirona_def pedido_de_def vendedor_7_def int4_def
        decimal_10_2_def references_profile_def)
  from zero h1 have c1: "Vendas_handleSubmit vendedor_7 (Vendas_loadProdutos farmacia) farmacia
      (pedido_de 0) = (Zod_error, farmacia)" by blast
  from zero h2 have c2: "Compras_handleSubmit vendedor_7 farmacia (compra_form_de 0 (Some 3))
      = (Zod_error, farmacia)" by blast
  from zero h3 have c3: "insert_vendas (Some 7) farmacia (venda_de 0)
     = (Some (check_violation ''vendas_quantidade_check''), farmacia)" by blast
  from zero h4 have c4: "insert_compras (Some 7) farmacia (compra_de 0)
     = (Some (check_violation ''compras_quantidade_check''), farmacia)" by blast
  from exact h5
  have c5: "fst (Vendas_handleSubmit vendedor_7 (Vendas_loadProdutos farmacia) farmacia
       (pedido_de 5)) = Sucesso"
    and c6: "find (\<lambda>p. p_id p = 1)
        (produtos (snd (Vendas_handleSubmit vendedor_7 (Vendas_loadProdutos farmacia) farmacia
           (pedido_de 5)))) = Some (dipirona\<lparr>p_quantidade := 0\<rparr>)"
    by blast+
  from c1 c2 c3 c4 c5 c6 show ?thesis by (intro conjI)
qed

section \<open>Purchases\<close>

lemma insert_compras_farmacia_10:
  "insert_compras (Some 7) farmacia (compra_de 10) = (None, farmacia_comprou_10)"
  by (simp add: farmacia_comprou_10_def farmacia_def dipirona_def compra_de_def
      insert_compras_def run_stmt_def insert_compras_stmt_def atualizar_estoque_compra_def
      int4_def decimal_10_2_def references_produto_def references_fornecedor_def
      references_profile_def)

text \<open>
  Claim C6. A committed purchase adds exactly its quantity to the stock of the product
  it references and to no other, and stores one row, the last of \<open>compras\<close>, whose total
  is quantity times unit cost and whose supplier is the one given. A purchase with no
  supplier (\<open>fornecedor_id\<close> \<open>NULL\<close>) that is otherwise valid is accepted by the table.
\<close>

theorem purchase_adds_quantity_supplier_optional:
  "(insert_compras uid db NEW = (None, db')
      \<longrightarrow> produtos db' =
            map (\<lambda>p. if Some (p_id p) = ci_produto_id NEW
                     then p\<lparr>p_quantidade := p_quantidade p + ci_quantidade NEW\<rparr> else p)
              (produtos db)
          \<and> compras db' = compras db @ [compra_row NEW]
          \<and> c_total (last (compras db')) = ci_quantidade NEW * ci_preco_unitario NEW
          \<and> c_fornecedor_id (last (compras db')) = ci_fornecedor_id NEW)
   \<and> (ci_fornecedor_id NEW = None
        \<and> int4 (ci_quantidade NEW) \<and> 0 < ci_quantidade NEW
        \<and> decimal_10_2 (ci_preco_unitario NEW) \<and> 0 \<le> ci_preco_unitario NEW
        \<and> decimal_10_2 (ci_quantidade NEW * ci_preco_unitario NEW)
        \<and> (\<forall>p\<in>set (produtos db). Some (p_id p) = ci_produto_id NEW \<longrightarrow>
              0 \<le> p_quantidade p \<and> int4 (p_quantidade p + ci_quantidade NEW))
        \<and> uid = Some (ci_user_id NEW)
        \<and> references_produto (ci_produto_id NEW) (produtos db)
        \<and> references_profile (ci_user_id NEW) (profiles db)
      \<longrightarrow> fst (insert_compras uid db NEW) = None)"
proof (intro conjI impI; (elim conjE)?)
  assume commit: "insert_compras uid db NEW = (None, db')"
  note c = insert_compras_committed(1) [OF commit]
  show "produtos db' =
            map (\<lambda>p. if Some (p_id p) = ci_produto_id NEW
                     then p\<lparr>p_quantidade := p_quantidade p + ci_quantidade NEW\<rparr> else p)
              (produtos db)"
    by (subst c) simp
  show rows: "compras db' = compras db @ [compra_row NEW]"
    by (subst c) simp
  show "c_total (last (compras db')) = ci_quantidade NEW * ci_preco_unitario NEW"
    by (simp add: rows compra_row_def)
  show "c_fornecedor_id (last (compras db')) = ci_fornecedor_id NEW"
    by (simp add: rows compra_row_def)
next
  assume a: "ci_fornecedor_id NEW = None" "int4 (ci_quantidade NEW)" "0 < ci_quantidade NEW"
    "decimal_10_2 (ci_preco_unitario NEW)" "0 \<le> ci_preco_unitario NEW"
    "decimal_10_2 (ci_quantidade NEW * ci_preco_unitario NEW)"
    "\<forall>p\<in>set (produtos db). Some (p_id p) = ci_produto_id NEW \<longrightarrow>
              0 \<le> p_quantidade p \<and> int4 (p_quantidade p + ci_quantidade NEW)"
    "uid = Some (ci_user_id NEW)"
    "references_produto (ci_produto_id NEW) (produtos db)"
    "references_profile (ci_user_id NEW) (profiles db)"
  have stock: "\<forall>p\<in>set (produtos db). Some (p_id p) = ci_produto_id NEW \<longrightarrow>
      int4 (p_quantidade p + ci_quantidade NEW) \<and> 0 \<le> p_quantidade p + ci_quantidade NEW"
    using a(3,7) by force
  have sup: "references_fornecedor (ci_fornecedor_id NEW) (fornecedores db)"
    by (simp add: references_fornecedor_def a(1))
  show "fst (insert_compras uid db NEW) = None"
    by (subst insert_compras_ok [OF a(2,4,6) stock a(8) a(3,5) sup a(9,10)]) simp
qed

theorem purchase_adds_quantity_supplier_optional_witness:
  "produtos farmacia_comprou_10 = [dipirona\<lparr>p_quantidade := 5 + 10\<rparr>]
   \<and> c_total (last (compras farmacia_comprou_10)) = 10 * 1200
   \<and> c_fornecedor_id (last (compras farmacia_comprou_10)) = None
   \<and> fst (insert_compras (Some 7) farmacia (compra_de 10)) = None"
proof -
  note purchase = purchase_adds_quantity_supplier_optional
      [where uid = "Some 7" and db = farmacia and NEW = "compra_de 10"
        and db' = farmacia_comprou_10]
  have h: "ci_fornecedor_id (compra_de 10) = None
        \<and> int4 (ci_quantidade (compra_de 10)) \<and> 0 < ci_quantidade (compra_de 10)
        \<and> decimal_10_2 (ci_preco_unitario (compra_de 10)) \<and> 0 \<le> ci_preco_unitario (compra_de 10)
        \<and> decimal_10_2 (ci_quantidade (compra_de 10) * ci_preco_unitario (compra_de 10))
        \<and> (\<forall>p\<in>set (produtos farmacia). Some (p_id p) = ci_produto_id (compra_de 10) \<longrightarrow>
              0 \<le> p_quantidade p \<and> int4 (p_quantidade p + ci_quantidade (compra_de 10)))
        \<and> Some 7 = Some (ci_user_id (compra_de 10))
        \<and> references_produto (ci_produto_id (compra_de 10)) (produtos farmacia)
        \<and> references_profile (ci_user_id (compra_de 10)) (profiles farmacia)"
    by (simp add: compra_de_def farmacia_def dipirona_def int4_def decimal_10_2_def
        references_produto_def references_profile_def)
  from purchase insert_compras_farmacia_10
  have rows: "produtos farmacia_comprou_10 =
            map (\<lambda>p. if Some (p_id p) = ci_produto_id (compra_de 10)
                     then p\<lparr>p_quantidade := p_quantidade p + ci_quantidade (compra_de 10)\<rparr>
                     else p)
              (produtos farmacia)"
    and total: "c_total (last (compras farmacia_comprou_10))
        = ci_quantidade (compra_de 10) * ci_preco_unitario (compra_de 10)"
    and sup: "c_fornecedor_id (last (compras farmacia_comprou_10)) = ci_fornecedor_id (compra_de 10)"
    by blast+
  from rows have c1: "produtos farmacia_comprou_10 = [dipirona\<lparr>p_quantidade := 5 + 10\<rparr>]"
    by (simp add: farmacia_def dipirona_def compra_de_def)
  from total have c2: "c_total (last (compras farmacia_comprou_10)) = 10 * 1200"
    by (simp add: compra_de_def)
  from sup have c3: "c_fornecedor_id (last (compras farmacia_comprou_10)) = None"
    by (simp add: compra_de_def)
  from purchase h have c4: "fst (insert_compras (Some 7) farmacia (compra_de 10)) = None"
    by blast
  from c1 c2 c3 c4 show ?thesis by (intro conjI)
qed

text \<open>
  Claim C10. A purchase row whose product reference is \<open>NULL\<close>, otherwise valid, is
  accepted: it is appended to \<open>compras\<close> and nothing else changes, so no product's
  quantity moves. The foreign key admits \<open>NULL\<close> and the update of the trigger matches
  no row.
\<close>

theorem purchase_without_product_changes_no_stock:
  assumes null: "ci_produto_id NEW = None"
    and fits: "int4 (ci_quantidade NEW)" "decimal_10_2 (ci_preco_unitario NEW)"
      "decimal_10_2 (ci_quantidade NEW * ci_preco_unitario NEW)"
    and checks: "0 < ci_quantidade NEW" "0 \<le> ci_preco_unitario NEW"
    and policy: "uid = Some (ci_user_id NEW)"
    and refs: "references_fornecedor (ci_fornecedor_id NEW) (fornecedores db)"
      "references_profile (ci_user_id NEW) (profiles db)"
  shows "insert_compras uid db NEW = (None, db\<lparr>compras := compras db @ [compra_row NEW]\<rparr>)
       \<and> produtos (snd (insert_compras uid db NEW)) = produtos db
       \<and> c_produto_id (last (compras (snd (insert_compras uid db NEW)))) = None"
proof -
  have ref: "references_produto (ci_produto_id NEW) (produtos db)"
    by (simp add: references_produto_def null)
  have stock: "\<forall>p\<in>set (produtos db). Some (p_id p) = ci_produto_id NEW \<longrightarrow>
      int4 (p_quantidade p + ci_quantidade NEW) \<and> 0 \<le> p_quantidade p + ci_quantidade NEW"
    by (simp add: null)
  have same: "map (\<lambda>p. if Some (p_id p) = ci_produto_id NEW
                     then p\<lparr>p_quantidade := p_quantidade p + ci_quantidade NEW\<rparr> else p)
              (produtos db) = produtos db"
    by (simp add: null)
  have "insert_compras uid db NEW = (None, db\<lparr>compras := compras db @ [compra_row NEW]\<rparr>)"
    by (subst insert_compras_ok [OF fits stock policy checks refs(1) ref refs(2)])
       (simp add: same)
  then show ?thesis
    by (simp add: compra_row_def null)
qed

theorem purchase_without_product_changes_no_stock_witness:
  "insert_compras (Some 7) farmacia compra_sem_produto
     = (None, farmacia\<lparr>compras := compras farmacia @ [compra_row compra_sem_produto]\<rparr>)
   \<and> produtos (snd (insert_compras (Some 7) farmacia compra_sem_produto)) = [dipirona]
   \<and> c_produto_id (last (compras (snd (insert_compras (Some 7) farmacia compra_sem_produto))))
     = None"
proof -
  have null: "ci_produto_id compra_sem_produto = None"
    by (simp add: compra_sem_produto_def)
  have fits: "int4 (ci_quantidade compra_sem_produto)"
    "decimal_10_2 (ci_preco_unitario compra_sem_produto)"
    "decimal_10_2 (ci_quantidade compra_sem_produto * ci_preco_unitario compra_sem_produto)"
    by (simp_all add: compra_sem_produto_def int4_def decimal_10_2_def)
  have checks: "0 < ci_quantidade compra_sem_produto" "0 \<le> ci_preco_unitario compra_sem_produto"
    by (simp_all add: compra_sem_produto_def)
  have policy: "Some 7 = Some (ci_user_id compra_sem_produto)"
    by (simp add: compra_sem_produto_def)
  have refs: "references_fornecedor (ci_fornecedor_id compra_sem_produto) (fornecedores farmacia)"
    "references_profile (ci_user_id compra_sem_produto) (profiles farmacia)"
    by (simp_all add: compra_sem_produto_def farmacia_def references_fornecedor_def
        references_profile_def)
  have ps: "produtos farmacia = [dipirona]"
    by (simp add: farmacia_def)
  note none = purchase_without_product_changes_no_stock [OF null fits checks policy refs]
  from none ps
  have c2: "produtos (snd (insert_compras (Some 7) farmacia compra_sem_produto)) = [dipirona]"
    by simp
  from none [THEN conjunct1] none [THEN conjunct2, THEN conjunct2] c2 show ?thesis
    by (intro conjI)
qed

section \<open>Deleting a product\<close>

lemma delete_produtos_events:
  "compras (snd (delete_produtos uid db pid)) = compras db
   \<or> compras (snd (delete_produtos uid db pid))
      = filter (\<lambda>c. c_produto_id c \<noteq> Some pid) (compras db)"
  "vendas (snd (delete_produtos uid db pid)) = vendas db
   \<or> vendas (snd (delete_produtos uid db pid))
      = filter (\<lambda>v. v_produto_id v \<noteq> Some pid) (vendas db)"
  by (simp_all add: delete_produtos_def run_stmt_def delete_produtos_stmt_def)

lemma delete_produtos_other_events:
  "filter (\<lambda>c. c_produto_id c \<noteq> Some pid) (compras (snd (delete_produtos uid db pid)))
     = filter (\<lambda>c. c_produto_id c \<noteq> Some pid) (compras db)"
  "filter (\<lambda>v. v_produto_id v \<noteq> Some pid) (vendas (snd (delete_produtos uid db pid)))
     = filter (\<lambda>v. v_produto_id v \<noteq> Some pid) (vendas db)"
  by (simp_all add: delete_produtos_def run_stmt_def delete_produtos_stmt_def)

lemma Vendas_handleSubmit_events:
  "compras (snd (Vendas_handleSubmit cl st db f)) = compras db
   \<and> (\<exists>ys. vendas (snd (Vendas_handleSubmit cl st db f)) = vendas db @ ys)"
proof -
  have "compras db' = compras db \<and> (\<exists>ys. vendas db' = vendas db @ ys)"
    if "insert_vendas uid db NEW = (r, db')" for uid NEW r db'
    using insert_vendas_compras [of uid db NEW] insert_vendas_appends [of uid db NEW] that
    by simp
  then show ?thesis
    by (auto simp: Vendas_handleSubmit_def split: option.splits prod.splits)
qed

lemma Compras_handleSubmit_events:
  "vendas (snd (Compras_handleSubmit cl db g)) = vendas db
   \<and> (\<exists>xs. compras (snd (Compras_handleSubmit cl db g)) = compras db @ xs)"
proof -
  have "vendas db' = vendas db \<and> (\<exists>xs. compras db' = compras db @ xs)"
    if "insert_compras uid db NEW = (r, db')" for uid NEW r db'
    using insert_compras_vendas [of uid db NEW] insert_compras_appends [of uid db NEW] that
    by simp
  then show ?thesis
    by (auto simp: Compras_handleSubmit_def split: option.splits prod.splits)
qed

lemma Produtos_handleSubmit_events:
  "compras (snd (Produtos_handleSubmit cl e n db h)) = compras db
   \<and> vendas (snd (Produtos_handleSubmit cl e n db h)) = vendas db"
proof -
  have u: "compras db' = compras db \<and> vendas db' = vendas db"
    if "update_produtos uid db i d = (r, db')" for uid i d r db'
    using update_produtos_events [of uid db i d] that by simp
  have i: "compras db' = compras db \<and> vendas db' = vendas db"
    if "insert_produtos uid db i d = (r, db')" for uid i d r db'
    using insert_produtos_events [of uid db i d] that by simp
  show ?thesis
    using u i
    by (auto simp: Produtos_handleSubmit_def Let_def split: option.splits prod.splits)
qed

lemma Produtos_handleDelete_events:
  "(compras (snd (Produtos_handleDelete cl c db pid)) = compras db
    \<or> compras (snd (Produtos_handleDelete cl c db pid))
       = filter (\<lambda>c. c_produto_id c \<noteq> Some pid) (compras db))
   \<and> (vendas (snd (Produtos_handleDelete cl c db pid)) = vendas db
    \<or> vendas (snd (Produtos_handleDelete cl c db pid))
       = filter (\<lambda>v. v_produto_id v \<noteq> Some pid) (vendas db))"
proof -
  have "(compras db' = compras db
         \<or> compras db' = filter (\<lambda>c. c_produto_id c \<noteq> Some pid) (compras db))
      \<and> (vendas db' = vendas db
         \<or> vendas db' = filter (\<lambda>v. v_produto_id v \<noteq> Some pid) (vendas db))"
    if "delete_produtos uid db pid = (r, db')" for uid r db'
    using delete_produtos_events [of uid db pid] that by simp
  then show ?thesis
    by (simp add: Produtos_handleDelete_def split: option.splits prod.splits)
qed

text \<open>
  Claim C7 says that no operation updates or deletes a purchase or sale record once it
  is stored. Deleting a product does: the one sale stored for the product goes with it,
  since \<open>vendas.produto_id\<close> (as \<open>compras.produto_id\<close>) is declared
  \<^verbatim>\<open>ON DELETE CASCADE\<close>.
\<close>

theorem product_delete_removes_its_sales:
  "vendas farmacia_vendeu_5 =
     [\<lparr>v_produto_id = Some 1, v_quantidade = 5, v_preco_unitario = 2000, v_total = 10000,
       v_lucro = Some 4000, v_user_id = 7, v_observacoes = None\<rparr>]
   \<and> fst (Produtos_handleDelete admin_8 True farmacia_vendeu_5 1) = Sucesso
   \<and> vendas (snd (Produtos_handleDelete admin_8 True farmacia_vendeu_5 1)) = []"
  by (simp add: farmacia_vendeu_5_def farmacia_def dipirona_def admin_8_def
      Produtos_handleDelete_def isAdmin_def delete_produtos_def run_stmt_def
      delete_produtos_stmt_def auth_is_admin_def)

section \<open>Editing a product\<close>

lemma update_produtos_committed:
  assumes "update_produtos uid db pid d = (None, db')"
    and "auth_is_admin uid (profiles db)"
    and "pid \<in> set (map p_id (produtos db))"
  shows "db' = db\<lparr>produtos := map (\<lambda>p. if p_id p = pid then produto_row pid d else p)
                               (produtos db)\<rparr>"
  using assms
  by (auto simp: update_produtos_def run_stmt_def update_produtos_stmt_def
      split: option.splits if_splits sum.splits)

lemma map_replace_ids:
  "p_id r = pid \<Longrightarrow> map p_id (map (\<lambda>p. if p_id p = pid then r else p) ps) = map p_id ps"
  by (induction ps) simp_all

lemma filter_replace_others:
  "p_id r = pid \<Longrightarrow>
   filter (\<lambda>p. p_id p \<noteq> pid) (map (\<lambda>p. if p_id p = pid then r else p) ps)
     = filter (\<lambda>p. p_id p \<noteq> pid) ps"
  by (induction ps) simp_all

text \<open>
  Claim C8 says that an update of a product by the product form leaves its quantity
  unchanged. The form has a quantity field and the handler sends the whole form: an
  administrator editing the product with 5 units and entering 7 leaves it with 7.
\<close>

theorem product_update_overwrites_quantity:
  "map p_quantidade (produtos farmacia) = [5]
   \<and> fst (Produtos_handleSubmit admin_8 (Some 1) 2 farmacia (ficha_dipirona 7)) = Sucesso
   \<and> map p_quantidade
        (produtos (snd (Produtos_handleSubmit admin_8 (Some 1) 2 farmacia (ficha_dipirona 7))))
      = [7]"
  by (simp add: farmacia_def dipirona_def admin_8_def ficha_dipirona_def
      Produtos_handleSubmit_def isAdmin_def produtoSchema_def z_number_min0_def
      update_produtos_def run_stmt_def update_produtos_stmt_def produto_conversion_def
      produto_constraints_def produto_checks_def produto_keys_def produto_row_def
      auth_is_admin_def int4_def decimal_10_2_def)

text \<open>
  Claim C8, as the code has it. A successful update of an existing product through the
  product form, by an administrator, writes the quantity of the form into the product:
  afterwards the product's quantity is the form's quantity, so it is unchanged exactly
  when the form carries the stored value. The identifiers, the other products and the
  purchase and sale records are unchanged.
\<close>

theorem product_update_writes_form_quantity:
  assumes ok: "Produtos_handleSubmit cl (Some pid) new_id db f = (Sucesso, db')"
    and adm: "auth_is_admin (session_uid cl) (profiles db)"
    and ex: "pid \<in> set (map p_id (produtos db))"
  shows "(\<forall>p\<in>set (produtos db'). p_id p = pid \<longrightarrow> Some (p_quantidade p) = pf_quantidade f)
       \<and> map p_id (produtos db') = map p_id (produtos db)
       \<and> filter (\<lambda>p. p_id p \<noteq> pid) (produtos db') = filter (\<lambda>p. p_id p \<noteq> pid) (produtos db)
       \<and> compras db' = compras db \<and> vendas db' = vendas db"
proof -
  from ok obtain categoria preco_compra preco_venda quantidade quantidade_minima
    where form: "pf_categoria_id f = Some categoria" "pf_preco_compra f = Some preco_compra"
      "pf_preco_venda f = Some preco_venda" "pf_quantidade f = Some quantidade"
      "pf_quantidade_minima f = Some quantidade_minima"
    by (auto simp: Produtos_handleSubmit_def produtoSchema_def z_number_min0_def
        split: if_splits option.splits)
  let ?data = "\<lparr>pd_nome = pf_nome f, pd_codigo = pf_codigo f, pd_categoria_id = categoria,
      pd_preco_compra = preco_compra, pd_preco_venda = preco_venda, pd_quantidade = quantidade,
      pd_quantidade_minima = quantidade_minima, pd_validade = pf_validade f,
      pd_descricao = pf_descricao f\<rparr>"
  have upd: "update_produtos (session_uid cl) db pid ?data = (None, db')"
    using ok form
    by (auto simp: Produtos_handleSubmit_def Let_def split: if_splits option.splits prod.splits)
  note db' = update_produtos_committed [OF upd adm ex]
  have rows: "produtos db' = map (\<lambda>p. if p_id p = pid then produto_row pid ?data else p)
                               (produtos db)"
    by (subst db') simp
  have key: "p_id (produto_row pid ?data) = pid"
    and qty: "p_quantidade (produto_row pid ?data) = quantidade"
    by (simp_all add: produto_row_def)
  have q: "\<forall>p\<in>set (produtos db'). p_id p = pid \<longrightarrow> Some (p_quantidade p) = pf_quantidade f"
  proof (intro ballI impI)
    fix p assume mem: "p \<in> set (produtos db')" and pid: "p_id p = pid"
    from mem have "p \<in> (\<lambda>p. if p_id p = pid then produto_row pid ?data else p)
        ` set (produtos db)"
      by (simp only: rows set_map)
    then obtain p0 where "p = (if p_id p0 = pid then produto_row pid ?data else p0)"
      by (rule imageE)
    with pid have "p = produto_row pid ?data"
      by (cases "p_id p0 = pid") simp_all
    then show "Some (p_quantidade p) = pf_quantidade f"
      by (simp only: qty form(4))
  qed
  have ids: "map p_id (produtos db') = map p_id (produtos db)"
    unfolding rows using key by (rule map_replace_ids)
  have others: "filter (\<lambda>p. p_id p \<noteq> pid) (produtos db')
      = filter (\<lambda>p. p_id p \<noteq> pid) (produtos db)"
    unfolding rows using key by (rule filter_replace_others)
  have ev: "compras db' = compras db" "vendas db' = vendas db"
    by (subst db', simp)+
  from q ids others ev show ?thesis by (intro conjI)
qed

theorem product_update_writes_form_quantity_witness:
  "map p_quantidade
     (produtos (snd (Produtos_handleSubmit admin_8 (Some 1) 2 farmacia (ficha_dipirona 7))))
     = [7]
   \<and> map p_id (produtos (snd (Produtos_handleSubmit admin_8 (Some 1) 2 farmacia (ficha_dipirona 7))))
     = [1]
   \<and> compras (snd (Produtos_handleSubmit admin_8 (Some 1) 2 farmacia (ficha_dipirona 7))) = []"
proof -
  obtain db' where res: "Produtos_handleSubmit admin_8 (Some 1) 2 farmacia (ficha_dipirona 7)
      = (Sucesso, db')"
    by (simp add: farmacia_def dipirona_def admin_8_def ficha_dipirona_def
      Produtos_handleSubmit_def isAdmin_def produtoSchema_def z_number_min0_def
      update_produtos_def run_stmt_def update_produtos_stmt_def produto_conversion_def
      produto_constraints_def produto_checks_def produto_keys_def produto_row_def
      auth_is_admin_def int4_def decimal_10_2_def)
  have adm: "auth_is_admin (session_uid admin_8) (profiles farmacia)"
    by (simp add: admin_8_def farmacia_def auth_is_admin_def)
  have ex: "1 \<in> set (map p_id (produtos farmacia))"
    by (simp add: farmacia_def dipirona_def)
  note w = product_update_writes_form_quantity [OF res adm ex]
  have ids: "map p_id (produtos db') = [1]"
    using w by (simp add: farmacia_def dipirona_def)
  then obtain p where ps: "produtos db' = [p]" and p: "p_id p = 1"
    by auto
  have "Some (p_quantidade p) = pf_quantidade (ficha_dipirona 7)"
    using w ps p by simp
  then have c1: "map p_quantidade (produtos db') = [7]"
    by (simp add: ps ficha_dipirona_def)
  have c3: "compras db' = []"
    using w by (simp add: farmacia_def)
  have eq: "snd (Produtos_handleSubmit admin_8 (Some 1) 2 farmacia (ficha_dipirona 7)) = db'"
    by (simp only: res snd_conv)
  from c1 ids c3 show ?thesis
    unfolding eq by (intro conjI)
qed

section \<open>The profit of a sale\<close>

lemma insert_vendas_in_stock:
  assumes key: "distinct (map p_id (produtos db))"
    and found: "find (\<lambda>p. p_id p = pid) (produtos db) = Some p"
    and ref: "vi_produto_id NEW = Some pid"
    and qty: "0 < vi_quantidade NEW" "vi_quantidade NEW \<le> p_quantidade p" "int4 (p_quantidade p)"
    and preco: "0 \<le> vi_preco_unitario NEW" "decimal_10_2 (vi_preco_unitario NEW)"
      "decimal_10_2 (vi_quantidade NEW * vi_preco_unitario NEW)"
      "decimal_10_2 ((vi_preco_unitario NEW - p_preco_compra p) * vi_quantidade NEW)"
    and user: "uid = Some (vi_user_id NEW)" "references_profile (vi_user_id NEW) (profiles db)"
  shows "insert_vendas uid db NEW =
     (None, db\<lparr>produtos :=
                 map (\<lambda>p. if Some (p_id p) = vi_produto_id NEW
                          then p\<lparr>p_quantidade := p_quantidade p - vi_quantidade NEW\<rparr> else p)
                   (produtos db),
               vendas := vendas db @
                 [venda_row NEW
                    (Some ((vi_preco_unitario NEW - p_preco_compra p) * vi_quantidade NEW))]\<rparr>)"
proof -
  note mem = find_Some_id [OF found]
  have cost: "select_preco_compra (vi_produto_id NEW) (produtos db) = Some (p_preco_compra p)"
    by (simp add: select_preco_compra_def ref found)
  have fits: "int4 (vi_quantidade NEW)"
    using qty by (simp add: int4_def)
  have stock: "\<forall>p'\<in>set (produtos db). Some (p_id p') = vi_produto_id NEW \<longrightarrow>
      int4 (p_quantidade p' - vi_quantidade NEW) \<and> 0 \<le> p_quantidade p' - vi_quantidade NEW"
  proof (intro ballI impI)
    fix p' assume "p' \<in> set (produtos db)" "Some (p_id p') = vi_produto_id NEW"
    then have "p' = p"
      using find_unique [OF key found, of p'] ref by simp
    then show "int4 (p_quantidade p' - vi_quantidade NEW) \<and> 0 \<le> p_quantidade p' - vi_quantidade NEW"
      using qty by (simp add: int4_def)
  qed
  have lucro: "\<forall>c. select_preco_compra (vi_produto_id NEW) (produtos db) = Some c \<longrightarrow>
                 decimal_10_2 ((vi_preco_unitario NEW - c) * vi_quantidade NEW)"
    using preco(4) by (simp add: cost)
  have refp: "references_produto (vi_produto_id NEW) (produtos db)"
    using mem by (auto simp: references_produto_def ref)
  show ?thesis
    by (subst insert_vendas_ok [OF fits preco(2,3) lucro stock user(1) qty(1) preco(1) refp user(2)])
       (simp add: cost)
qed

text \<open>
  Claim C3. A sale of quantity \<open>q\<close> at unit price \<open>v\<close> of a product in stock, whose
  purchase cost is \<open>c\<close> when the row is inserted, is committed (given a row that is valid
  otherwise) and stores one new row, the last of \<open>vendas\<close>, with total \<open>q * v\<close> and profit
  \<open>(v - c) * q\<close>; every committed sale of the product has stored just that. The profit is
  written by that insert only: an update of the product (a new purchase cost included)
  leaves \<open>vendas\<close> as it is, and through any later statements that delete no product the
  rows stored so far stay as they were stored.
\<close>

theorem sale_total_and_profit_fixed_at_commit:
  assumes ref: "vi_produto_id NEW = Some pid"
    and found: "find (\<lambda>p. p_id p = pid) (produtos db) = Some p"
  shows "(distinct (map p_id (produtos db))
          \<and> 0 < vi_quantidade NEW \<and> vi_quantidade NEW \<le> p_quantidade p
          \<and> int4 (p_quantidade p)
          \<and> 0 \<le> vi_preco_unitario NEW \<and> decimal_10_2 (vi_preco_unitario NEW)
          \<and> decimal_10_2 (vi_quantidade NEW * vi_preco_unitario NEW)
          \<and> decimal_10_2 ((vi_preco_unitario NEW - p_preco_compra p) * vi_quantidade NEW)
          \<and> uid = Some (vi_user_id NEW)
          \<and> references_profile (vi_user_id NEW) (profiles db)
        \<longrightarrow> fst (insert_vendas uid db NEW) = None
            \<and> vendas (snd (insert_vendas uid db NEW)) = vendas db @
                 [venda_row NEW
                    (Some ((vi_preco_unitario NEW - p_preco_compra p) * vi_quantidade NEW))])
       \<and> (insert_vendas uid db NEW = (None, db')
        \<longrightarrow> vendas db' = vendas db @
                 [venda_row NEW
                    (Some ((vi_preco_unitario NEW - p_preco_compra p) * vi_quantidade NEW))]
            \<and> v_total (last (vendas db')) = vi_quantidade NEW * vi_preco_unitario NEW
            \<and> v_lucro (last (vendas db'))
                = Some ((vi_preco_unitario NEW - p_preco_compra p) * vi_quantidade NEW)
            \<and> vendas (execute db' (Update_produtos uid' pid d)) = vendas db'
            \<and> ((\<forall>s\<in>set ss. \<not> is_delete s)
                 \<longrightarrow> take (length (vendas db')) (vendas (run db' ss)) = vendas db'))"
proof (intro conjI impI; (elim conjE)?)
  assume a: "distinct (map p_id (produtos db))"
    "0 < vi_quantidade NEW" "vi_quantidade NEW \<le> p_quantidade p" "int4 (p_quantidade p)"
    "0 \<le> vi_preco_unitario NEW" "decimal_10_2 (vi_preco_unitario NEW)"
    "decimal_10_2 (vi_quantidade NEW * vi_preco_unitario NEW)"
    "decimal_10_2 ((vi_preco_unitario NEW - p_preco_compra p) * vi_quantidade NEW)"
    "uid = Some (vi_user_id NEW)" "references_profile (vi_user_id NEW) (profiles db)"
  note ins = insert_vendas_in_stock [OF a(1) found ref a(2-10)]
  show "fst (insert_vendas uid db NEW) = None"
    by (subst ins) simp
  show "vendas (snd (insert_vendas uid db NEW)) = vendas db @
                 [venda_row NEW
                    (Some ((vi_preco_unitario NEW - p_preco_compra p) * vi_quantidade NEW))]"
    by (subst ins) simp
next
  assume commit: "insert_vendas uid db NEW = (None, db')"
  have lucro: "select_preco_compra (vi_produto_id NEW) (produtos db) = Some (p_preco_compra p)"
    by (simp add: select_preco_compra_def ref found)
  show rows: "vendas db' = vendas db @
           [venda_row NEW (Some ((vi_preco_unitario NEW - p_preco_compra p) * vi_quantidade NEW))]"
    by (subst insert_vendas_committed(1) [OF commit]) (simp add: lucro)
  show "v_total (last (vendas db')) = vi_quantidade NEW * vi_preco_unitario NEW"
    by (simp add: rows venda_row_def)
  show "v_lucro (last (vendas db'))
      = Some ((vi_preco_unitario NEW - p_preco_compra p) * vi_quantidade NEW)"
    by (simp add: rows venda_row_def)
  show "vendas (execute db' (Update_produtos uid' pid d)) = vendas db'"
    by (simp add: update_produtos_events)
  show "take (length (vendas db')) (vendas (run db' ss)) = vendas db'"
    if "\<forall>s\<in>set ss. \<not> is_delete s"
    using run_appends [OF that, of db'] by auto
qed

lemma insert_vendas_farmacia_5:
  "insert_vendas (Some 7) farmacia (venda_de 5) = (None, farmacia_vendeu_5)"
  by (simp add: farmacia_vendeu_5_def farmacia_def dipirona_def venda_de_def
      insert_vendas_def run_stmt_def insert_vendas_stmt_def atualizar_estoque_venda_def
      select_preco_compra_def int4_def decimal_10_2_def references_produto_def
      references_profile_def venda_row_def Let_def)

theorem sale_total_and_profit_fixed_at_commit_witness:
  "fst (insert_vendas (Some 7) farmacia (venda_de 5)) = None
   \<and> vendas (snd (insert_vendas (Some 7) farmacia (venda_de 5)))
       = [venda_row (venda_de 5) (Some ((2000 - 1200) * 5))]
   \<and> v_total (last (vendas (snd (insert_vendas (Some 7) farmacia (venda_de 5))))) = 5 * 2000
   \<and> v_lucro (last (vendas (snd (insert_vendas (Some 7) farmacia (venda_de 5)))))
       = Some ((2000 - 1200) * 5)
   \<and> map p_preco_compra
        (produtos (execute (snd (insert_vendas (Some 7) farmacia (venda_de 5)))
           (Update_produtos (Some 8) 1 nova_dipirona)))
       = [1500]
   \<and> vendas (execute (snd (insert_vendas (Some 7) farmacia (venda_de 5)))
        (Update_produtos (Some 8) 1 nova_dipirona))
       = vendas (snd (insert_vendas (Some 7) farmacia (venda_de 5)))
   \<and> take (length (vendas (snd (insert_vendas (Some 7) farmacia (venda_de 5)))))
        (vendas (run (snd (insert_vendas (Some 7) farmacia (venda_de 5)))
           [Update_produtos (Some 8) 1 nova_dipirona]))
       = vendas (snd (insert_vendas (Some 7) farmacia (venda_de 5)))"
proof -
  let ?db' = "snd (insert_vendas (Some 7) farmacia (venda_de 5))"
  have ref: "vi_produto_id (venda_de 5) = Some 1"
    by (simp add: venda_de_def)
  have found: "find (\<lambda>p. p_id p = 1) (produtos farmacia) = Some dipirona"
    by (simp add: farmacia_def dipirona_def)
  have valid: "distinct (map p_id (produtos farmacia))
          \<and> 0 < vi_quantidade (venda_de 5) \<and> vi_quantidade (venda_de 5) \<le> p_quantidade dipirona
          \<and> int4 (p_quantidade dipirona)
          \<and> 0 \<le> vi_preco_unitario (venda_de 5) \<and> decimal_10_2 (vi_preco_unitario (venda_de 5))
          \<and> decimal_10_2 (vi_quantidade (venda_de 5) * vi_preco_unitario (venda_de 5))
          \<and> decimal_10_2 ((vi_preco_unitario (venda_de 5) - p_preco_compra dipirona)
               * vi_quantidade (venda_de 5))
          \<and> Some 7 = Some (vi_user_id (venda_de 5))
          \<and> references_profile (vi_user_id (venda_de 5)) (profiles farmacia)"
    by (simp add: farmacia_def dipirona_def venda_de_def int4_def decimal_10_2_def
        references_profile_def)
  have nodel: "\<forall>s\<in>set [Update_produtos (Some 8) 1 nova_dipirona]. \<not> is_delete s"
    by simp
  note fixed = sale_total_and_profit_fixed_at_commit [OF ref found,
      of "Some 7" ?db' "Some 8" nova_dipirona "[Update_produtos (Some 8) 1 nova_dipirona]"]
  from fixed valid have c1: "fst (insert_vendas (Some 7) farmacia (venda_de 5)) = None"
    by blast
  from fixed valid
  have "vendas ?db' = vendas farmacia @
      [venda_row (venda_de 5)
         (Some ((vi_preco_unitario (venda_de 5) - p_preco_compra dipirona)
            * vi_quantidade (venda_de 5)))]"
    by blast
  then have c2: "vendas ?db' = [venda_row (venda_de 5) (Some ((2000 - 1200) * 5))]"
    by (simp add: farmacia_def venda_de_def dipirona_def)
  have commit: "insert_vendas (Some 7) farmacia (venda_de 5) = (None, ?db')"
    using c1 by (simp add: prod_eq_iff)
  from fixed commit
  have t: "v_total (last (vendas ?db'))
        = vi_quantidade (venda_de 5) * vi_preco_unitario (venda_de 5)"
    and l: "v_lucro (last (vendas ?db'))
        = Some ((vi_preco_unitario (venda_de 5) - p_preco_compra dipirona)
            * vi_quantidade (venda_de 5))"
    and c6: "vendas (execute ?db' (Update_produtos (Some 8) 1 nova_dipirona)) = vendas ?db'"
    by blast+
  from t have c3: "v_total (last (vendas ?db')) = 5 * 2000"
    by (simp add: venda_de_def)
  from l have c4: "v_lucro (last (vendas ?db')) = Some ((2000 - 1200) * 5)"
    by (simp add: venda_de_def dipirona_def)
  from fixed commit nodel
  have c7: "take (length (vendas ?db'))
        (vendas (run ?db' [Update_produtos (Some 8) 1 nova_dipirona])) = vendas ?db'"
    by blast
  have after: "?db' = farmacia_vendeu_5"
    by (simp add: insert_vendas_farmacia_5)
  have "map p_preco_compra
      (produtos (execute farmacia_vendeu_5 (Update_produtos (Some 8) 1 nova_dipirona))) = [1500]"
    by (simp add: farmacia_vendeu_5_def farmacia_def dipirona_def
        nova_dipirona_def update_produtos_def run_stmt_def update_produtos_stmt_def
        produto_conversion_def produto_constraints_def produto_checks_def produto_keys_def
        produto_row_def auth_is_admin_def int4_def decimal_10_2_def)
  then have c5: "map p_preco_compra
      (produtos (execute ?db' (Update_produtos (Some 8) 1 nova_dipirona))) = [1500]"
    by (simp only: after)
  from c1 c2 c3 c4 c5 c6 c7 show ?thesis
    by (intro conjI)
qed

section \<open>What removes an event\<close>

lemma delete_produtos_removes:
  assumes "auth_is_admin uid (profiles db)" "pid \<in> set (map p_id (produtos db))"
  shows "delete_produtos uid db pid =
     (None, db\<lparr>produtos := filter (\<lambda>p. p_id p \<noteq> pid) (produtos db),
                compras := filter (\<lambda>c. c_produto_id c \<noteq> Some pid) (compras db),
                vendas := filter (\<lambda>v. v_produto_id v \<noteq> Some pid) (vendas db)\<rparr>)"
  using assms by (simp add: delete_produtos_def run_stmt_def delete_produtos_stmt_def)

lemma delete_produtos_cases:
  "snd (delete_produtos uid db pid) = db
   \<or> (pid \<in> set (map p_id (produtos db))
      \<and> produtos (snd (delete_produtos uid db pid)) = filter (\<lambda>p. p_id p \<noteq> pid) (produtos db)
      \<and> compras (snd (delete_produtos uid db pid))
          = filter (\<lambda>c. c_produto_id c \<noteq> Some pid) (compras db)
      \<and> vendas (snd (delete_produtos uid db pid))
          = filter (\<lambda>v. v_produto_id v \<noteq> Some pid) (vendas db))"
proof (cases "auth_is_admin uid (profiles db) \<and> pid \<in> set (map p_id (produtos db))")
  case True
  then show ?thesis
    using delete_produtos_removes [of uid db pid] by simp
next
  case False
  then have "snd (delete_produtos uid db pid) = db"
    by (auto simp: delete_produtos_def run_stmt_def delete_produtos_stmt_def)
  then show ?thesis ..
qed

lemma Produtos_handleDelete_cases:
  "snd (Produtos_handleDelete cl c db pid) = db
   \<or> (pid \<in> set (map p_id (produtos db))
      \<and> produtos (snd (Produtos_handleDelete cl c db pid))
          = filter (\<lambda>p. p_id p \<noteq> pid) (produtos db)
      \<and> compras (snd (Produtos_handleDelete cl c db pid))
          = filter (\<lambda>c. c_produto_id c \<noteq> Some pid) (compras db)
      \<and> vendas (snd (Produtos_handleDelete cl c db pid))
          = filter (\<lambda>v. v_produto_id v \<noteq> Some pid) (vendas db))"
proof (cases "isAdmin cl \<and> c")
  case True
  then have "snd (Produtos_handleDelete cl c db pid) = snd (delete_produtos (session_uid cl) db pid)"
    by (simp add: Produtos_handleDelete_def split: prod.splits option.splits)
  then show ?thesis
    using delete_produtos_cases [of "session_uid cl" db pid] by simp
next
  case False
  then have "snd (Produtos_handleDelete cl c db pid) = db"
    by (auto simp: Produtos_handleDelete_def)
  then show ?thesis ..
qed

lemma Produtos_handleDelete_removes:
  assumes "isAdmin cl" "c" "auth_is_admin (session_uid cl) (profiles db)"
    "pid \<in> set (map p_id (produtos db))"
  shows "Produtos_handleDelete cl c db pid =
     (Sucesso, db\<lparr>produtos := filter (\<lambda>p. p_id p \<noteq> pid) (produtos db),
                   compras := filter (\<lambda>c. c_produto_id c \<noteq> Some pid) (compras db),
                   vendas := filter (\<lambda>v. v_produto_id v \<noteq> Some pid) (vendas db)\<rparr>)"
  using assms delete_produtos_removes [of "session_uid cl" db pid]
  by (simp add: Produtos_handleDelete_def)

text \<open>
  Claim C7, as the code has it. No statement changes a stored purchase or sale record,
  and records are removed only together with the product they reference. A purchase or
  sale insert and a product insert or update leave the records stored so far in place and
  in order, new ones being appended. The deletion of a product either changes nothing (the
  session is not an administrator's, or no product has the identifier) or removes the
  product and, with it, exactly the purchase and the sale records that reference it, every
  other record staying in place; for an administrator and an existing product it is the
  latter. The same holds of the four handlers of the pages.
\<close>

theorem events_removed_only_with_their_product:
  "(\<not> is_delete s \<longrightarrow>
       (\<exists>xs. compras (execute db s) = compras db @ xs)
       \<and> (\<exists>ys. vendas (execute db s) = vendas db @ ys))
   \<and> (execute db (Delete_produtos uid pid) = db
       \<or> (pid \<in> set (map p_id (produtos db))
          \<and> produtos (execute db (Delete_produtos uid pid))
              = filter (\<lambda>p. p_id p \<noteq> pid) (produtos db)
          \<and> compras (execute db (Delete_produtos uid pid))
              = filter (\<lambda>c. c_produto_id c \<noteq> Some pid) (compras db)
          \<and> vendas (execute db (Delete_produtos uid pid))
              = filter (\<lambda>v. v_produto_id v \<noteq> Some pid) (vendas db)))
   \<and> (auth_is_admin uid (profiles db) \<and> pid \<in> set (map p_id (produtos db))
       \<longrightarrow> execute db (Delete_produtos uid pid)
           = db\<lparr>produtos := filter (\<lambda>p. p_id p \<noteq> pid) (produtos db),
                 compras := filter (\<lambda>c. c_produto_id c \<noteq> Some pid) (compras db),
                 vendas := filter (\<lambda>v. v_produto_id v \<noteq> Some pid) (vendas db)\<rparr>)
   \<and> compras (snd (Vendas_handleSubmit cl st db f)) = compras db
   \<and> (\<exists>ys. vendas (snd (Vendas_handleSubmit cl st db f)) = vendas db @ ys)
   \<and> vendas (snd (Compras_handleSubmit cl db g)) = vendas db
   \<and> (\<exists>xs. compras (snd (Compras_handleSubmit cl db g)) = compras db @ xs)
   \<and> compras (snd (Produtos_handleSubmit cl e n db h)) = compras db
   \<and> vendas (snd (Produtos_handleSubmit cl e n db h)) = vendas db
   \<and> (snd (Produtos_handleDelete cl c db pid) = db
       \<or> (pid \<in> set (map p_id (produtos db))
          \<and> produtos (snd (Produtos_handleDelete cl c db pid))
              = filter (\<lambda>p. p_id p \<noteq> pid) (produtos db)
          \<and> compras (snd (Produtos_handleDelete cl c db pid))
              = filter (\<lambda>c. c_produto_id c \<noteq> Some pid) (compras db)
          \<and> vendas (snd (Produtos_handleDelete cl c db pid))
              = filter (\<lambda>v. v_produto_id v \<noteq> Some pid) (vendas db)))
   \<and> (isAdmin cl \<and> c \<and> auth_is_admin (session_uid cl) (profiles db)
        \<and> pid \<in> set (map p_id (produtos db))
       \<longrightarrow> Produtos_handleDelete cl c db pid
           = (Sucesso,
              db\<lparr>produtos := filter (\<lambda>p. p_id p \<noteq> pid) (produtos db),
                 compras := filter (\<lambda>c. c_produto_id c \<noteq> Some pid) (compras db),
                 vendas := filter (\<lambda>v. v_produto_id v \<noteq> Some pid) (vendas db)\<rparr>))"
proof (intro conjI impI; (elim conjE)?)
  show "\<exists>xs. compras (execute db s) = compras db @ xs" if "\<not> is_delete s"
    using execute_appends [OF that, of db] by blast
  show "\<exists>ys. vendas (execute db s) = vendas db @ ys" if "\<not> is_delete s"
    using execute_appends [OF that, of db] by blast
  show "execute db (Delete_produtos uid pid) = db
       \<or> (pid \<in> set (map p_id (produtos db))
          \<and> produtos (execute db (Delete_produtos uid pid))
              = filter (\<lambda>p. p_id p \<noteq> pid) (produtos db)
          \<and> compras (execute db (Delete_produtos uid pid))
              = filter (\<lambda>c. c_produto_id c \<noteq> Some pid) (compras db)
          \<and> vendas (execute db (Delete_produtos uid pid))
              = filter (\<lambda>v. v_produto_id v \<noteq> Some pid) (vendas db))"
    using delete_produtos_cases [of uid db pid] by (simp only: execute.simps)
  show "execute db (Delete_produtos uid pid)
           = db\<lparr>produtos := filter (\<lambda>p. p_id p \<noteq> pid) (produtos db),
                 compras := filter (\<lambda>c. c_produto_id c \<noteq> Some pid) (compras db),
                 vendas := filter (\<lambda>v. v_produto_id v \<noteq> Some pid) (vendas db)\<rparr>"
    if "auth_is_admin uid (profiles db)" "pid \<in> set (map p_id (produtos db))"
    using delete_produtos_removes [OF that] by (simp only: execute.simps snd_conv)
  show "compras (snd (Vendas_handleSubmit cl st db f)) = compras db"
    "\<exists>ys. vendas (snd (Vendas_handleSubmit cl st db f)) = vendas db @ ys"
    using Vendas_handleSubmit_events [of cl st db f] by blast+
  show "vendas (snd (Compras_handleSubmit cl db g)) = vendas db"
    "\<exists>xs. compras (snd (Compras_handleSubmit cl db g)) = compras db @ xs"
    using Compras_handleSubmit_events [of cl db g] by blast+
  show "compras (snd (Produtos_handleSubmit cl e n db h)) = compras db"
    "vendas (snd (Produtos_handleSubmit cl e n db h)) = vendas db"
    using Produtos_handleSubmit_events [of cl e n db h] by blast+
  show "snd (Produtos_handleDelete cl c db pid) = db
       \<or> (pid \<in> set (map p_id (produtos db))
          \<and> produtos (snd (Produtos_handleDelete cl c db pid))
              = filter (\<lambda>p. p_id p \<noteq> pid) (produtos db)
          \<and> compras (snd (Produtos_handleDelete cl c db pid))
              = filter (\<lambda>c. c_produto_id c \<noteq> Some pid) (compras db)
          \<and> vendas (snd (Produtos_handleDelete cl c db pid))
              = filter (\<lambda>v. v_produto_id v \<noteq> Some pid) (vendas db))"
    by (rule Produtos_handleDelete_cases)
  show "Produtos_handleDelete cl c db pid
           = (Sucesso,
              db\<lparr>produtos := filter (\<lambda>p. p_id p \<noteq> pid) (produtos db),
                 compras := filter (\<lambda>c. c_produto_id c \<noteq> Some pid) (compras db),
                 vendas := filter (\<lambda>v. v_produto_id v \<noteq> Some pid) (vendas db)\<rparr>)"
    if "isAdmin cl" "c" "auth_is_admin (session_uid cl) (profiles db)"
      "pid \<in> set (map p_id (produtos db))"
    using that by (rule Produtos_handleDelete_removes)
qed

lemma insert_vendas_movimentada:
  "vendas (execute farmacia_movimentada (Insert_vendas (Some 7) (venda_de 1)))
     = vendas farmacia_movimentada @ [venda_row (venda_de 1) (Some 800)]"
  by (simp add: farmacia_movimentada_def farmacia_def dipirona_def paracetamol_def venda_de_def
      insert_vendas_def run_stmt_def insert_vendas_stmt_def atualizar_estoque_venda_def
      select_preco_compra_def int4_def decimal_10_2_def references_produto_def
      references_profile_def Let_def)

theorem events_removed_only_with_their_product_witness:
  "vendas (execute farmacia_movimentada (Insert_vendas (Some 7) (venda_de 1)))
     = vendas farmacia_movimentada @ [venda_row (venda_de 1) (Some 800)]
   \<and> (\<exists>xs. compras (execute farmacia_movimentada (Insert_vendas (Some 7) (venda_de 1)))
            = compras farmacia_movimentada @ xs)
   \<and> (\<exists>ys. vendas (execute farmacia_movimentada (Insert_vendas (Some 7) (venda_de 1)))
            = vendas farmacia_movimentada @ ys)
   \<and> compras farmacia_movimentada = [compra_row (compra_de 10)]
   \<and> vendas farmacia_movimentada = [venda_row (venda_de 3) (Some 2400), venda_paracetamol]
   \<and> produtos (execute farmacia_movimentada (Delete_produtos (Some 8) 1)) = [paracetamol]
   \<and> compras (execute farmacia_movimentada (Delete_produtos (Some 8) 1)) = []
   \<and> vendas (execute farmacia_movimentada (Delete_produtos (Some 8) 1)) = [venda_paracetamol]
   \<and> Produtos_handleDelete admin_8 True farmacia_movimentada 1
       = (Sucesso, farmacia_movimentada\<lparr>produtos := [paracetamol], compras := [],
                                         vendas := [venda_paracetamol]\<rparr>)"
proof -
  note only = events_removed_only_with_their_product
      [where s = "Insert_vendas (Some 7) (venda_de 1)" and db = farmacia_movimentada
        and uid = "Some 8" and pid = 1 and cl = admin_8 and c = True]
  have h1: "\<not> is_delete (Insert_vendas (Some 7) (venda_de 1))"
    by simp
  have h2: "auth_is_admin (Some 8) (profiles farmacia_movimentada)
      \<and> 1 \<in> set (map p_id (produtos farmacia_movimentada))"
    by (simp add: farmacia_movimentada_def farmacia_def dipirona_def auth_is_admin_def)
  have h3: "isAdmin admin_8 \<and> True \<and> auth_is_admin (session_uid admin_8) (profiles farmacia_movimentada)
      \<and> 1 \<in> set (map p_id (produtos farmacia_movimentada))"
    by (simp add: admin_8_def isAdmin_def farmacia_movimentada_def farmacia_def dipirona_def
        auth_is_admin_def)
  have rows: "filter (\<lambda>p. p_id p \<noteq> 1) (produtos farmacia_movimentada) = [paracetamol]"
    "filter (\<lambda>c. c_produto_id c \<noteq> Some 1) (compras farmacia_movimentada) = []"
    "filter (\<lambda>v. v_produto_id v \<noteq> Some 1) (vendas farmacia_movimentada) = [venda_paracetamol]"
    by (simp_all add: farmacia_movimentada_def farmacia_def dipirona_def paracetamol_def
        venda_paracetamol_def compra_row_def venda_row_def compra_de_def venda_de_def)
  from only h1
  have c2: "\<exists>xs. compras (execute farmacia_movimentada (Insert_vendas (Some 7) (venda_de 1)))
            = compras farmacia_movimentada @ xs"
    and c3: "\<exists>ys. vendas (execute farmacia_movimentada (Insert_vendas (Some 7) (venda_de 1)))
            = vendas farmacia_movimentada @ ys"
    by blast+
  have c4: "compras farmacia_movimentada = [compra_row (compra_de 10)]"
    and c5: "vendas farmacia_movimentada = [venda_row (venda_de 3) (Some 2400), venda_paracetamol]"
    by (simp_all add: farmacia_movimentada_def)
  from only h2
  have del: "execute farmacia_movimentada (Delete_produtos (Some 8) 1)
      = farmacia_movimentada\<lparr>produtos := filter (\<lambda>p. p_id p \<noteq> 1) (produtos farmacia_movimentada),
          compras := filter (\<lambda>c. c_produto_id c \<noteq> Some 1) (compras farmacia_movimentada),
          vendas := filter (\<lambda>v. v_produto_id v \<noteq> Some 1) (vendas farmacia_movimentada)\<rparr>"
    by blast
  have c6: "produtos (execute farmacia_movimentada (Delete_produtos (Some 8) 1)) = [paracetamol]"
    and c7: "compras (execute farmacia_movimentada (Delete_produtos (Some 8) 1)) = []"
    and c8: "vendas (execute farmacia_movimentada (Delete_produtos (Some 8) 1))
        = [venda_paracetamol]"
    by (simp_all only: del rows) simp_all
  from only h3
  have "Produtos_handleDelete admin_8 True farmacia_movimentada 1
      = (Sucesso, farmacia_movimentada\<lparr>
          produtos := filter (\<lambda>p. p_id p \<noteq> 1) (produtos farmacia_movimentada),
          compras := filter (\<lambda>c. c_produto_id c \<noteq> Some 1) (compras farmacia_movimentada),
          vendas := filter (\<lambda>v. v_produto_id v \<noteq> Some 1) (vendas farmacia_movimentada)\<rparr>)"
    by blast
  then have c9: "Produtos_handleDelete admin_8 True farmacia_movimentada 1
       = (Sucesso, farmacia_movimentada\<lparr>produtos := [paracetamol], compras := [],
                                         vendas := [venda_paracetamol]\<rparr>)"
    by (simp only: rows)
  from insert_vendas_movimentada c2 c3 c4 c5 c6 c7 c8 c9 show ?thesis
    by (intro conjI)
qed

end
